theory Spec2Isabelle
  imports Main "HOL-Library.Sublist"
begin

section \<open>The chat session hook: data model\<close>

text \<open>
  An embedding of \<^verbatim>\<open>useChat\<close> in \<^verbatim>\<open>legal-web/src/hooks/use-chat.ts\<close>. The hook is a set of
  event handlers over shared state (three React state cells and four refs); the browser runs
  the handlers one at a time. Each handler is a function from state to state. What the
  browser owns (the sockets, the timers, the console, the clock, \<^verbatim>\<open>Math.random\<close>, the HTTP
  request) is part of the state or an argument, so that every effect of a handler is visible.
  The cleanup run at unmount is not modelled: the states are those of a mounted hook.
\<close>

datatype Role = User | Assistant

text \<open>\<^verbatim>\<open>interface Message\<close>; the field \<^verbatim>\<open>id\<close> is \<open>msg_id\<close> here, the \<^verbatim>\<open>Date\<close> a number.\<close>

record Message =
  msg_id :: string
  role :: Role
  content :: string
  timestamp :: nat

datatype ConnectionStatus = Connecting | Connected | Disconnected | Error

text \<open>
  A browser \<^verbatim>\<open>WebSocket\<close>: its \<^verbatim>\<open>readyState\<close>, and whether its close event has been
  dispatched (after which the socket raises no further event).
\<close>

datatype ready_state = CONNECTING | OPEN | CLOSING | CLOSED

record WebSocket =
  readyState :: ready_state
  closeFired :: bool

text \<open>
  The value of \<^verbatim>\<open>JSON.parse(event.data)\<close> as the message handler reads it: the three
  properties \<^verbatim>\<open>streaming\<close>, \<^verbatim>\<open>chunk\<close> and \<^verbatim>\<open>error\<close>. \<open>streaming\<close> is \<open>Some b\<close> when the
  property is the boolean \<open>b\<close> and \<open>None\<close> otherwise (the handler compares it with \<^verbatim>\<open>===\<close>).
  \<open>chunk\<close> and \<open>error\<close> are \<open>None\<close> when absent and, as on the wire, a string when
  present. \<open>Malformed\<close> is a payload on which the \<^verbatim>\<open>try\<close> block throws (\<^verbatim>\<open>JSON.parse\<close> fails,
  or yields \<^verbatim>\<open>null\<close>).
\<close>

record inbound =
  streaming :: "bool option"
  chunk :: "string option"
  error :: "string option"

datatype payload = Malformed | Data inbound

text \<open>The frame \<^verbatim>\<open>sendMessage\<close> serialises: \<^verbatim>\<open>{message, expert_id}\<close>.\<close>

record outbound =
  message :: string
  expert_id :: string

text \<open>One entry per \<^verbatim>\<open>console.log\<close> / \<^verbatim>\<open>console.error\<close> call of the hook.\<close>

datatype log_entry =
    LogConnected
  | LogWsError string
  | LogParseFailed
  | LogErrorEvent
  | LogDisconnected
  | LogReconnecting nat
  | LogCreateFailed
  | LogNotConnected
  | LogResetFailed

text \<open>
  The two callbacks the hook passes to \<^verbatim>\<open>setTimeout\<close>: the initial \<^verbatim>\<open>connect()\<close> of the mount
  effect, and the retry scheduled by \<^verbatim>\<open>onclose\<close>.
\<close>

datatype timer_callback = InitialConnect | RetryConnect

record timer =
  handle :: nat
  delay :: nat
  callback :: timer_callback

datatype http_request = PostResetMemory

record chat =
  messages :: "Message list"
  isStreaming :: bool
  connectionStatus :: ConnectionStatus
  wsRef :: "nat option"
  reconnectTimeoutRef :: "nat option"
  reconnectAttempts :: nat
  currentExpertId :: string
  expertId :: string
  sockets :: "WebSocket list"
  sent :: "(nat \<times> outbound) list"
  timers :: "timer list"
  nextHandle :: nat
  console :: "log_entry list"
  requests :: "http_request list"
  pendingFetch :: nat
  idSupply :: "nat \<Rightarrow> string"
  idsDrawn :: nat
  wsUrlOk :: bool

text \<open>
  \<open>wsRef\<close> and \<open>reconnectTimeoutRef\<close> hold an index into \<open>sockets\<close> and a timer handle
  (\<open>None\<close> is \<^verbatim>\<open>null\<close>). \<open>sent\<close> lists the frames handed to \<^verbatim>\<open>ws.send\<close>, each with its
  socket. \<open>idSupply\<close> is the sequence of strings that successive calls of \<^verbatim>\<open>generateId\<close>
  return (\<^verbatim>\<open>Math.random().toString(36).substring(2, 15)\<close>) and \<open>idsDrawn\<close> counts the
  calls made. \<open>wsUrlOk\<close> says whether \<^verbatim>\<open>new WebSocket(config.wsUrl + '/ws/chat')\<close> accepts the
  configured URL; when it does not, the constructor throws.
\<close>

definition maxReconnectAttempts :: nat where
  "maxReconnectAttempts = 5"

definition generateId :: "chat \<Rightarrow> string \<times> chat" where
  "generateId s = (idSupply s (idsDrawn s), s\<lparr>idsDrawn := Suc (idsDrawn s)\<rparr>)"

definition console_log :: "log_entry \<Rightarrow> chat \<Rightarrow> chat" where
  "console_log l s = s\<lparr>console := console s @ [l]\<rparr>"

definition setTimeout :: "timer_callback \<Rightarrow> nat \<Rightarrow> chat \<Rightarrow> nat \<times> chat" where
  "setTimeout cb d s =
     (nextHandle s,
      s\<lparr>timers := timers s @ [\<lparr>handle = nextHandle s, delay = d, callback = cb\<rparr>],
        nextHandle := Suc (nextHandle s)\<rparr>)"

section \<open>The browser's side of a socket\<close>

definition ws_update :: "(WebSocket \<Rightarrow> WebSocket) \<Rightarrow> nat \<Rightarrow> WebSocket list \<Rightarrow> WebSocket list" where
  "ws_update f i ws = (if i < length ws then ws[i := f (ws ! i)] else ws)"

definition ws_readyState :: "chat \<Rightarrow> nat \<Rightarrow> ready_state option" where
  "ws_readyState s i = (if i < length (sockets s) then Some (readyState (sockets s ! i)) else None)"

text \<open>\<^verbatim>\<open>ws.close()\<close>: a socket that is connecting or open starts closing; otherwise nothing.\<close>

definition ws_close :: "WebSocket \<Rightarrow> WebSocket" where
  "ws_close w =
     (if readyState w = CONNECTING \<or> readyState w = OPEN then w\<lparr>readyState := CLOSING\<rparr> else w)"

definition channel_open :: "chat \<Rightarrow> bool" where
  "channel_open s = (case wsRef s of None \<Rightarrow> False | Some i \<Rightarrow> ws_readyState s i = Some OPEN)"

section \<open>The handlers\<close>

text \<open>
  \<^verbatim>\<open>connect\<close> (lines 48-140). The handlers it installs on the new socket are the functions
  \<open>onopen\<close>, \<open>onmessage\<close>, \<open>onerror\<close> and \<open>onclose\<close> below; the \<open>else\<close> branch is the
  \<^verbatim>\<open>catch\<close> block.
\<close>

definition connect :: "chat \<Rightarrow> chat" where
  "connect s =
     (let s1 = (case wsRef s of
                  None \<Rightarrow> s
                | Some i \<Rightarrow> s\<lparr>sockets := ws_update ws_close i (sockets s)\<rparr>);
          s2 = s1\<lparr>connectionStatus := Connecting\<rparr>
      in if wsUrlOk s2
         then s2\<lparr>wsRef := Some (length (sockets s2)),
                 sockets := sockets s2 @ [\<lparr>readyState = CONNECTING, closeFired = False\<rparr>]\<rparr>
         else (console_log LogCreateFailed s2)\<lparr>connectionStatus := Error\<rparr>)"

text \<open>\<^verbatim>\<open>ws.onopen\<close> (lines 59-63).\<close>

definition onopen :: "chat \<Rightarrow> chat" where
  "onopen s = (console_log LogConnected s)\<lparr>connectionStatus := Connected, reconnectAttempts := 0\<rparr>"

text \<open>JavaScript truthiness of a property that is absent or a string.\<close>

definition truthy :: "string option \<Rightarrow> bool" where
  "truthy v = (case v of None \<Rightarrow> False | Some t \<Rightarrow> t \<noteq> [])"

text \<open>The updater of lines 74-92, given the chunk text.\<close>

definition append_chunk :: "nat \<Rightarrow> string \<Rightarrow> chat \<Rightarrow> chat" where
  "append_chunk now c s =
     (let prev = messages s in
      if prev \<noteq> [] \<and> role (last prev) = Assistant
      then s\<lparr>messages := butlast prev @ [(last prev)\<lparr>content := content (last prev) @ c\<rparr>]\<rparr>
      else (let (i, s') = generateId s in
            s'\<lparr>messages := prev @ [\<lparr>msg_id = i, role = Assistant, content = c, timestamp = now\<rparr>]\<rparr>))"

definition error_text :: "string \<Rightarrow> string" where
  "error_text e = ''I apologize, but I encountered an error: '' @ e"

text \<open>\<^verbatim>\<open>ws.onmessage\<close> (lines 65-112).\<close>

definition onmessage :: "nat \<Rightarrow> payload \<Rightarrow> chat \<Rightarrow> chat" where
  "onmessage now p s =
     (case p of
        Malformed \<Rightarrow> console_log LogParseFailed s
      | Data d \<Rightarrow>
          if streaming d = Some True \<and> \<not> truthy (chunk d) then s\<lparr>isStreaming := True\<rparr>
          else if truthy (chunk d) then append_chunk now (the (chunk d)) s
          else if streaming d = Some False then s\<lparr>isStreaming := False\<rparr>
          else if truthy (error d) then
            (let s1 = (console_log (LogWsError (the (error d))) s)\<lparr>isStreaming := False\<rparr>;
                 (i, s2) = generateId s1
             in s2\<lparr>messages := messages s2 @
                   [\<lparr>msg_id = i, role = Assistant, content = error_text (the (error d)),
                     timestamp = now\<rparr>]\<rparr>)
          else s)"

text \<open>\<^verbatim>\<open>ws.onerror\<close> (lines 114-117).\<close>

definition onerror :: "chat \<Rightarrow> chat" where
  "onerror s = (console_log LogErrorEvent s)\<lparr>connectionStatus := Error\<rparr>"

definition reconnect_delay :: "nat \<Rightarrow> nat" where
  "reconnect_delay attempts = min (1000 * 2 ^ attempts) 30000"

text \<open>\<^verbatim>\<open>ws.onclose\<close> (lines 119-133).\<close>

definition onclose :: "chat \<Rightarrow> chat" where
  "onclose s =
     (let s1 = (console_log LogDisconnected s)\<lparr>connectionStatus := Disconnected, isStreaming := False\<rparr>
      in if reconnectAttempts s1 < maxReconnectAttempts
         then (let d = reconnect_delay (reconnectAttempts s1);
                   (h, s2) = setTimeout RetryConnect d (console_log (LogReconnecting d) s1)
               in s2\<lparr>reconnectTimeoutRef := Some h\<rparr>)
         else s1)"

text \<open>The bodies of the two timer callbacks (lines 129-130 and 150).\<close>

definition run_callback :: "timer_callback \<Rightarrow> chat \<Rightarrow> chat" where
  "run_callback cb s =
     (case cb of
        InitialConnect \<Rightarrow> connect s
      | RetryConnect \<Rightarrow> connect (s\<lparr>reconnectAttempts := Suc (reconnectAttempts s)\<rparr>))"

text \<open>\<^verbatim>\<open>sendMessage\<close> (lines 164-186).\<close>

definition sendMessage :: "nat \<Rightarrow> string \<Rightarrow> chat \<Rightarrow> chat" where
  "sendMessage now text s =
     (case wsRef s of
        None \<Rightarrow> console_log LogNotConnected s
      | Some w \<Rightarrow>
          if ws_readyState s w \<noteq> Some OPEN then console_log LogNotConnected s
          else (let (i, s1) = generateId s;
                    userMessage = \<lparr>msg_id = i, role = User, content = text, timestamp = now\<rparr>;
                    s2 = s1\<lparr>messages := messages s1 @ [userMessage]\<rparr>
                in s2\<lparr>sent := sent s2 @ [(w, \<lparr>message = text, expert_id = currentExpertId s2\<rparr>)]\<rparr>))"

text \<open>
  \<^verbatim>\<open>resetChat\<close> (lines 188-195) runs in two parts: the call, which issues the request and
  suspends at \<^verbatim>\<open>await\<close>, and the continuation, run when the request settles.
\<close>

definition resetChat :: "chat \<Rightarrow> chat" where
  "resetChat s = s\<lparr>requests := requests s @ [PostResetMemory], pendingFetch := Suc (pendingFetch s)\<rparr>"

definition resetChat_resolved :: "chat \<Rightarrow> chat" where
  "resetChat_resolved s = s\<lparr>pendingFetch := pendingFetch s - 1, messages := []\<rparr>"

definition resetChat_rejected :: "chat \<Rightarrow> chat" where
  "resetChat_rejected s = console_log LogResetFailed (s\<lparr>pendingFetch := pendingFetch s - 1\<rparr>)"

text \<open>\<^verbatim>\<open>reconnect\<close> (lines 197-200).\<close>

definition reconnect :: "chat \<Rightarrow> chat" where
  "reconnect s = connect (s\<lparr>reconnectAttempts := 0\<rparr>)"

text \<open>A new \<^verbatim>\<open>expertId\<close> prop, and the effect of lines 42-44 that copies it into the ref.\<close>

definition selectExpert :: "string \<Rightarrow> chat \<Rightarrow> chat" where
  "selectExpert p s = s\<lparr>expertId := p, currentExpertId := p\<rparr>"

section \<open>Events\<close>

text \<open>
  What can happen to a mounted hook: a timer fires, a socket raises one of its four events,
  the request of \<^verbatim>\<open>resetChat\<close> settles, or the page calls the hook (\<^verbatim>\<open>sendMessage\<close>,
  \<^verbatim>\<open>resetChat\<close>, \<^verbatim>\<open>reconnect\<close>, a new persona). Every socket the hook creates carries the same
  four handlers, and they stay installed when \<open>wsRef\<close> moves on to a newer socket.
\<close>

datatype event =
    TimerFired nat
  | WsOpen nat
  | WsMessage nat payload
  | WsError nat
  | WsClose nat
  | SendMessage string
  | ResetChat
  | FetchResolved
  | FetchRejected
  | Reconnect
  | SelectExpert string

definition find_timer :: "nat \<Rightarrow> chat \<Rightarrow> timer option" where
  "find_timer h s = find (\<lambda>t. handle t = h) (timers s)"

definition fire_timer :: "nat \<Rightarrow> chat \<Rightarrow> chat" where
  "fire_timer h s =
     (case find_timer h s of
        None \<Rightarrow> s
      | Some t \<Rightarrow> run_callback (callback t) (s\<lparr>timers := filter (\<lambda>t. handle t \<noteq> h) (timers s)\<rparr>))"

text \<open>
  The browser updates \<^verbatim>\<open>readyState\<close> before it dispatches an event: to \<^verbatim>\<open>OPEN\<close> for the open
  event, to \<^verbatim>\<open>CLOSED\<close> for the error event of a failed connection and for the close event.
  The first argument of \<open>step\<close> is the clock reading (\<^verbatim>\<open>new Date()\<close>) during the event.
\<close>

fun step :: "nat \<Rightarrow> event \<Rightarrow> chat \<Rightarrow> chat" where
  "step now (TimerFired h) s = fire_timer h s"
| "step now (WsOpen i) s =
     onopen (s\<lparr>sockets := ws_update (\<lambda>w. w\<lparr>readyState := OPEN\<rparr>) i (sockets s)\<rparr>)"
| "step now (WsMessage i p) s = onmessage now p s"
| "step now (WsError i) s =
     onerror (s\<lparr>sockets := ws_update (\<lambda>w. w\<lparr>readyState := CLOSED\<rparr>) i (sockets s)\<rparr>)"
| "step now (WsClose i) s =
     onclose (s\<lparr>sockets := ws_update (\<lambda>w. w\<lparr>readyState := CLOSED, closeFired := True\<rparr>) i (sockets s)\<rparr>)"
| "step now (SendMessage text) s = sendMessage now text s"
| "step now ResetChat s = resetChat s"
| "step now FetchResolved s = resetChat_resolved s"
| "step now FetchRejected s = resetChat_rejected s"
| "step now Reconnect s = reconnect s"
| "step now (SelectExpert p) s = selectExpert p s"

text \<open>
  When the browser can raise an event. A socket opens only while it is connecting and
  delivers frames only while it is open; a connection that fails raises the error event and
  then the close event; a socket that has dispatched its close event raises nothing more.
  A timer fires while it is pending, a request settles while it is pending. The order in
  which different sockets raise their events is not constrained.
\<close>

fun enabled :: "event \<Rightarrow> chat \<Rightarrow> bool" where
  "enabled (TimerFired h) s = (find_timer h s \<noteq> None)"
| "enabled (WsOpen i) s = (ws_readyState s i = Some CONNECTING)"
| "enabled (WsMessage i p) s = (ws_readyState s i = Some OPEN)"
| "enabled (WsError i) s =
     (i < length (sockets s) \<and> \<not> closeFired (sockets s ! i) \<and> readyState (sockets s ! i) \<noteq> CLOSED)"
| "enabled (WsClose i) s = (i < length (sockets s) \<and> \<not> closeFired (sockets s ! i))"
| "enabled (SendMessage text) s = True"
| "enabled ResetChat s = True"
| "enabled FetchResolved s = (0 < pendingFetch s)"
| "enabled FetchRejected s = (0 < pendingFetch s)"
| "enabled Reconnect s = True"
| "enabled (SelectExpert p) s = True"

text \<open>
  The hook right after mount: the initial values of lines 31-39 and the timer of the mount
  effect (line 149) pending.
\<close>

definition mounted :: "bool \<Rightarrow> (nat \<Rightarrow> string) \<Rightarrow> string \<Rightarrow> chat" where
  "mounted url_ok ids p =
     \<lparr>messages = [], isStreaming = False, connectionStatus = Connecting, wsRef = None,
      reconnectTimeoutRef = None, reconnectAttempts = 0, currentExpertId = p, expertId = p,
      sockets = [], sent = [], timers = [\<lparr>handle = 0, delay = 0, callback = InitialConnect\<rparr>],
      nextHandle = 1, console = [], requests = [], pendingFetch = 0,
      idSupply = ids, idsDrawn = 0, wsUrlOk = url_ok\<rparr>"

text \<open>A run: events with their clock readings, handled in order.\<close>

fun run :: "(nat \<times> event) list \<Rightarrow> chat \<Rightarrow> chat" where
  "run [] s = s"
| "run ((now, e) # es) s = run es (step now e s)"

fun run_enabled :: "(nat \<times> event) list \<Rightarrow> chat \<Rightarrow> bool" where
  "run_enabled [] s = True"
| "run_enabled ((now, e) # es) s = (enabled e s \<and> run_enabled es (step now e s))"

inductive reachable :: "chat \<Rightarrow> bool" where
  reachable_mounted: "reachable (mounted url_ok ids p)"
| reachable_step: "reachable s \<Longrightarrow> enabled e s \<Longrightarrow> reachable (step now e s)"

section \<open>Frames, traces and sample inputs\<close>

text \<open>The frames of the inbound contract that carry a single field.\<close>

definition stream_start :: inbound where
  "stream_start = \<lparr>streaming = Some True, chunk = None, error = None\<rparr>"

definition chunk_frame :: "string \<Rightarrow> inbound" where
  "chunk_frame t = \<lparr>streaming = None, chunk = Some t, error = None\<rparr>"

definition stream_end :: inbound where
  "stream_end = \<lparr>streaming = Some False, chunk = None, error = None\<rparr>"

definition error_frame :: "string \<Rightarrow> inbound" where
  "error_frame e = \<lparr>streaming = None, chunk = None, error = Some e\<rparr>"

text \<open>
  The chunk text an event carries (empty when it carries none), the concatenation of the
  chunk texts of a run in arrival order, and the arrival time of the first chunk with text.
\<close>

fun chunk_of :: "event \<Rightarrow> string" where
  "chunk_of (WsMessage w (Data d)) = (case chunk d of None \<Rightarrow> [] | Some t \<Rightarrow> t)"
| "chunk_of e = []"

fun chunk_text :: "(nat \<times> event) list \<Rightarrow> string" where
  "chunk_text [] = []"
| "chunk_text ((now, e) # es) = chunk_of e @ chunk_text es"

fun first_chunk_time :: "(nat \<times> event) list \<Rightarrow> nat" where
  "first_chunk_time [] = 0"
| "first_chunk_time ((now, e) # es) = (if chunk_of e \<noteq> [] then now else first_chunk_time es)"

text \<open>
  The events that change the message sequence without being chunk frames: a \<^verbatim>\<open>sendMessage\<close>
  on an open channel (lines 170-177), a resolved reset of a sequence that is not empty
  (line 191), and a frame that reaches the error branch (lines 96-107). A run is undisturbed
  when none of its events is one of these in the state where it happens.
\<close>

fun disturbs :: "event \<Rightarrow> chat \<Rightarrow> bool" where
  "disturbs (SendMessage t) s = channel_open s"
| "disturbs FetchResolved s = (messages s \<noteq> [])"
| "disturbs (WsMessage w (Data d)) s =
     (\<not> truthy (chunk d) \<and> streaming d = None \<and> truthy (error d))"
| "disturbs e s = False"

fun undisturbed :: "(nat \<times> event) list \<Rightarrow> chat \<Rightarrow> bool" where
  "undisturbed [] s = True"
| "undisturbed ((now, e) # es) s = (\<not> disturbs e s \<and> undisturbed es (step now e s))"

text \<open>The delays announced on the console (\<^verbatim>\<open>Reconnecting in ...ms\<close>), in order.\<close>

fun logged_delays :: "log_entry list \<Rightarrow> nat list" where
  "logged_delays [] = []"
| "logged_delays (LogReconnecting d # ls) = d # logged_delays ls"
| "logged_delays (l # ls) = logged_delays ls"

text \<open>
  A retry that fails: timer \<open>k\<close> fires and opens socket \<open>k\<close>, which reports an error and
  closes. \<open>five_failures\<close> is a session whose first connection opens and then drops, and
  whose five retries all fail. Handles and socket indices agree in it, since each close
  schedules one timer and each timer opens one socket.
\<close>

fun failed_retry :: "nat \<Rightarrow> (nat \<times> event) list" where
  "failed_retry k = [(0, TimerFired k), (0, WsError k), (0, WsClose k)]"

definition five_failures :: "(nat \<times> event) list" where
  "five_failures =
     [(0, TimerFired 0), (0, WsOpen 0), (0, WsClose 0)] @ concat (map failed_retry [1, 2, 3, 4, 5])"

text \<open>
  A session with a manual reconnect during the backoff wait. In \<open>reconnect_during_backoff\<close>
  the first connection attempt fails, its close event schedules timer 1, and before that
  timer fires the page calls \<^verbatim>\<open>reconnect()\<close>; socket 1 opens. In \<open>stale_retries\<close> timer 1 then
  fires: \<^verbatim>\<open>connect\<close> closes socket 1 and opens socket 2; socket 1 closes, and from then on
  every socket fails and every pending timer fires.
\<close>

definition reconnect_during_backoff :: "(nat \<times> event) list" where
  "reconnect_during_backoff =
     [(0, TimerFired 0), (1, WsError 0), (2, WsClose 0), (3, Reconnect), (4, WsOpen 1)]"

definition stale_retries :: "(nat \<times> event) list" where
  "stale_retries =
     [(5, TimerFired 1), (6, WsClose 1), (7, WsError 2), (8, WsClose 2),
      (9, TimerFired 2), (10, WsError 3), (11, WsClose 3),
      (12, TimerFired 3), (13, WsError 4), (14, WsClose 4),
      (15, TimerFired 4), (16, WsError 5), (17, WsClose 5),
      (18, TimerFired 5), (19, WsError 6), (20, WsClose 6),
      (21, TimerFired 6), (22, WsError 7), (23, WsClose 7)]"

text \<open>
  Two id sequences: one whose draws all differ, and one in which \<^verbatim>\<open>Math.random()\<close> returns
  \<^verbatim>\<open>0.5\<close> at every call, so that \<^verbatim>\<open>generateId()\<close> is \<^verbatim>\<open>"0.i".substring(2, 15) = "i"\<close>.
\<close>

definition sample_ids :: "nat \<Rightarrow> string" where
  "sample_ids n = replicate (Suc n) CHR ''k''"

definition repeating_ids :: "nat \<Rightarrow> string" where
  "repeating_ids n = ''i''"

definition fresh_session :: chat where
  "fresh_session = mounted True sample_ids ''constitutional''"

text \<open>The ids handed out so far, and the invariant that ties the messages to them.\<close>

definition ids_drawn :: "chat \<Rightarrow> string set" where
  "ids_drawn s = idSupply s ` {..<idsDrawn s}"

definition ids_ok :: "chat \<Rightarrow> bool" where
  "ids_ok s = (distinct (map msg_id (messages s)) \<and> set (map msg_id (messages s)) \<subseteq> ids_drawn s)"

section \<open>Basic facts about the handlers\<close>

lemmas handler_defs = onmessage_def append_chunk_def generateId_def console_log_def truthy_def
  onopen_def onerror_def onclose_def setTimeout_def connect_def run_callback_def sendMessage_def
  resetChat_def resetChat_resolved_def resetChat_rejected_def reconnect_def selectExpert_def
  fire_timer_def find_timer_def ws_update_def ws_readyState_def ws_close_def reconnect_delay_def
  maxReconnectAttempts_def error_text_def channel_open_def

lemmas frame_defs = stream_start_def chunk_frame_def stream_end_def error_frame_def

lemmas sample_defs = fresh_session_def mounted_def sample_ids_def repeating_ids_def

lemma run_reachable: "reachable s \<Longrightarrow> run_enabled es s \<Longrightarrow> reachable (run es s)"
proof (induction es arbitrary: s)
  case Nil
  then show ?case by simp
next
  case (Cons a es)
  obtain now e where a: "a = (now, e)" by (cases a)
  from Cons.prems a have "reachable (step now e s)" "run_enabled es (step now e s)"
    by (simp_all add: reachable_step)
  from Cons.IH [OF this] show ?case by (simp add: a)
qed

lemma reachable_fresh_session: "reachable fresh_session"
  unfolding fresh_session_def by (rule reachable_mounted)

lemma connect_untouched:
  "messages (connect s) = messages s \<and> idsDrawn (connect s) = idsDrawn s
   \<and> idSupply (connect s) = idSupply s \<and> currentExpertId (connect s) = currentExpertId s
   \<and> reconnectAttempts (connect s) = reconnectAttempts s"
  by (simp add: connect_def console_log_def Let_def split: option.splits)

lemma fire_timer_untouched:
  "messages (fire_timer h s) = messages s \<and> idsDrawn (fire_timer h s) = idsDrawn s
   \<and> idSupply (fire_timer h s) = idSupply s \<and> currentExpertId (fire_timer h s) = currentExpertId s"
  by (simp add: fire_timer_def run_callback_def connect_untouched
           split: option.splits timer_callback.splits)

lemma onclose_untouched:
  "messages (onclose s) = messages s \<and> idsDrawn (onclose s) = idsDrawn s
   \<and> idSupply (onclose s) = idSupply s \<and> currentExpertId (onclose s) = currentExpertId s"
  by (simp add: onclose_def console_log_def setTimeout_def Let_def)

lemma onmessage_expert: "currentExpertId (onmessage now p s) = currentExpertId s"
  by (simp add: onmessage_def append_chunk_def generateId_def console_log_def Let_def
           split: payload.splits)

lemma sendMessage_expert: "currentExpertId (sendMessage now t s) = currentExpertId s"
  by (simp add: sendMessage_def generateId_def console_log_def Let_def split: option.splits)

section \<open>Inbound frames with an empty chunk\<close>

text \<open>
  Claim C10. A frame \<^verbatim>\<open>{chunk: ""}\<close> is ignored by the message handler: the whole state
  (messages, streaming flag, connection status, console) is what it was. A frame
  \<^verbatim>\<open>{streaming: true, chunk: ""}\<close> is handled as the stream-start frame
  \<^verbatim>\<open>{streaming: true}\<close>: it sets the streaming flag and nothing else, because the chunk
  branch is taken only for a truthy chunk.
\<close>

theorem empty_chunk_ignored:
  "onmessage now (Data (chunk_frame [])) s = s
   \<and> step now (WsMessage w (Data (chunk_frame []))) s = s
   \<and> onmessage now (Data \<lparr>streaming = Some True, chunk = Some [], error = None\<rparr>) s
       = s\<lparr>isStreaming := True\<rparr>
   \<and> onmessage now (Data \<lparr>streaming = Some True, chunk = Some [], error = None\<rparr>) s
       = onmessage now (Data stream_start) s"
  by (simp add: onmessage_def truthy_def frame_defs)

section \<open>Resetting the chat\<close>

text \<open>
  Claim C5. \<^verbatim>\<open>resetChat\<close> issues the POST to the reset-memory endpoint and leaves the
  messages alone while the request is pending. When the request fails, the messages stay
  exactly as they are and the failure goes to the console; when it settles successfully,
  the message sequence becomes empty.
\<close>

theorem resetChat_clears_after_success:
  "requests (step now ResetChat s) = requests s @ [PostResetMemory]
   \<and> messages (step now ResetChat s) = messages s
   \<and> messages (step now FetchRejected s) = messages s
   \<and> console (step now FetchRejected s) = console s @ [LogResetFailed]
   \<and> messages (step now FetchResolved s) = []"
  by (simp add: resetChat_def resetChat_rejected_def resetChat_resolved_def console_log_def)

section \<open>Error frames\<close>

lemma error_frame_state:
  assumes "e \<noteq> []"
  shows "onmessage now (Data (error_frame e)) s
     = s\<lparr>console := console s @ [LogWsError e], isStreaming := False,
         idsDrawn := Suc (idsDrawn s),
         messages := messages s @ [\<lparr>msg_id = idSupply s (idsDrawn s), role = Assistant,
                         content = error_text e, timestamp = now\<rparr>]\<rparr>"
  using assms
  by (simp add: onmessage_def truthy_def generateId_def console_log_def Let_def error_frame_def)

text \<open>
  Claim C7, amended. For every frame \<^verbatim>\<open>{error: e}\<close> whose text \<open>e\<close> is not empty, the handler
  sets the streaming flag to false and appends exactly one assistant message, whose content
  is the apology text followed by \<open>e\<close> (so it contains \<open>e\<close>); the messages already there
  are kept as they are and the connection status does not change.
\<close>

theorem error_frame_appends_message:
  assumes "e \<noteq> []"
  shows "isStreaming (onmessage now (Data (error_frame e)) s) = False
    \<and> messages (onmessage now (Data (error_frame e)) s)
        = messages s @ [\<lparr>msg_id = idSupply s (idsDrawn s), role = Assistant,
                         content = ''I apologize, but I encountered an error: '' @ e,
                         timestamp = now\<rparr>]
    \<and> sublist e (content (last (messages (onmessage now (Data (error_frame e)) s))))
    \<and> connectionStatus (onmessage now (Data (error_frame e)) s) = connectionStatus s"
proof -
  let ?s' = "onmessage now (Data (error_frame e)) s"
  note st = error_frame_state [OF assms, of now s]
  have a: "isStreaming ?s' = False" by (simp add: st)
  have b: "messages ?s' = messages s @ [\<lparr>msg_id = idSupply s (idsDrawn s), role = Assistant,
                         content = ''I apologize, but I encountered an error: '' @ e,
                         timestamp = now\<rparr>]"
    by (simp add: st error_text_def)
  have "content (last (messages ?s')) = error_text e" by (simp add: st)
  then have c: "sublist e (content (last (messages ?s')))"
    unfolding error_text_def by (simp only: sublist_append_leftI)
  have d: "connectionStatus ?s' = connectionStatus s" by (simp add: st)
  from a b c d show ?thesis by blast
qed

text \<open>
  The scenario of the specification: \<^verbatim>\<open>{error: "rate limited"}\<close> arrives in the middle of a
  stream, after the user's question.
\<close>

theorem error_frame_appends_message_witness:
  "''rate limited'' \<noteq> []
   \<and> isStreaming (run [(0, TimerFired 0), (1, WsOpen 0), (2, SendMessage ''Hello''),
                       (3, WsMessage 0 (Data stream_start))] fresh_session)
   \<and> \<not> isStreaming (onmessage 4 (Data (error_frame ''rate limited''))
          (run [(0, TimerFired 0), (1, WsOpen 0), (2, SendMessage ''Hello''),
                (3, WsMessage 0 (Data stream_start))] fresh_session))
   \<and> messages (onmessage 4 (Data (error_frame ''rate limited''))
          (run [(0, TimerFired 0), (1, WsOpen 0), (2, SendMessage ''Hello''),
                (3, WsMessage 0 (Data stream_start))] fresh_session))
       = [\<lparr>msg_id = ''k'', role = User, content = ''Hello'', timestamp = 2\<rparr>,
          \<lparr>msg_id = ''kk'', role = Assistant,
           content = ''I apologize, but I encountered an error: rate limited'', timestamp = 4\<rparr>]"
  using error_frame_appends_message [of "''rate limited''" 4
      "run [(0, TimerFired 0), (1, WsOpen 0), (2, SendMessage ''Hello''),
            (3, WsMessage 0 (Data stream_start))] fresh_session"]
  by (simp add: sample_defs frame_defs handler_defs Let_def)

text \<open>
  C7 as stated fails for the empty text: \<^verbatim>\<open>{error: ""}\<close> arriving in the middle of a stream
  leaves the streaming flag set and appends nothing.
\<close>

theorem empty_error_frame_ignored:
  "run_enabled [(0, TimerFired 0), (1, WsOpen 0), (2, SendMessage ''Hello''),
                (3, WsMessage 0 (Data stream_start)), (4, WsMessage 0 (Data (error_frame [])))]
     fresh_session
   \<and> isStreaming (run [(0, TimerFired 0), (1, WsOpen 0), (2, SendMessage ''Hello''),
                       (3, WsMessage 0 (Data stream_start)),
                       (4, WsMessage 0 (Data (error_frame [])))] fresh_session)
   \<and> messages (run [(0, TimerFired 0), (1, WsOpen 0), (2, SendMessage ''Hello''),
                    (3, WsMessage 0 (Data stream_start)),
                    (4, WsMessage 0 (Data (error_frame [])))] fresh_session)
       = [\<lparr>msg_id = ''k'', role = User, content = ''Hello'', timestamp = 2\<rparr>]"
  by (simp add: sample_defs frame_defs handler_defs Let_def)

section \<open>Message ids\<close>

lemma idSupply_step: "idSupply (step now e s) = idSupply s"
  by (cases e)
     (auto simp: fire_timer_untouched onclose_untouched connect_untouched reconnect_def onopen_def
        onerror_def console_log_def onmessage_def append_chunk_def generateId_def sendMessage_def
        resetChat_def resetChat_resolved_def resetChat_rejected_def selectExpert_def Let_def
        split: payload.splits option.splits)

lemma idsDrawn_step: "idsDrawn s \<le> idsDrawn (step now e s)"
  by (cases e)
     (auto simp: fire_timer_untouched onclose_untouched connect_untouched reconnect_def onopen_def
        onerror_def console_log_def onmessage_def append_chunk_def generateId_def sendMessage_def
        resetChat_def resetChat_resolved_def resetChat_rejected_def selectExpert_def Let_def
        split: payload.splits option.splits)

lemma fresh_draw:
  assumes "inj_on (idSupply s) {..<Suc (idsDrawn s)}"
  shows "idSupply s (idsDrawn s) \<notin> ids_drawn s"
proof
  note inj = assms
  assume "idSupply s (idsDrawn s) \<in> ids_drawn s"
  then obtain k where k: "k < idsDrawn s" "idSupply s (idsDrawn s) = idSupply s k"
    by (auto simp: ids_drawn_def)
  from inj k have "idsDrawn s = k" by (auto dest: inj_onD)
  with k(1) show False by simp
qed

lemma ids_ok_append:
  assumes "inj_on (idSupply s) {..<idsDrawn s'}" "ids_ok s"
    and "messages s' = messages s @ [m]" "msg_id m = idSupply s (idsDrawn s)"
    and "idsDrawn s' = Suc (idsDrawn s)" "idSupply s' = idSupply s"
  shows "ids_ok s'"
proof -
  have "idSupply s (idsDrawn s) \<notin> ids_drawn s"
    using assms(1,5) by (simp add: fresh_draw)
  moreover have "ids_drawn s' = insert (idSupply s (idsDrawn s)) (ids_drawn s)"
    using assms(5,6) by (simp add: ids_drawn_def lessThan_Suc)
  ultimately show ?thesis using assms(2,3,4) by (auto simp: ids_ok_def)
qed

lemma ids_ok_same:
  "ids_ok s \<Longrightarrow> messages s' = messages s \<Longrightarrow> idsDrawn s' = idsDrawn s \<Longrightarrow>
   idSupply s' = idSupply s \<Longrightarrow> ids_ok s'"
  by (simp add: ids_ok_def ids_drawn_def)

lemma map_msg_id_update_last:
  "ms \<noteq> [] \<Longrightarrow> map msg_id (butlast ms @ [(last ms)\<lparr>content := c\<rparr>]) = map msg_id ms"
  by (induction ms) auto

lemma ids_ok_onmessage:
  assumes "inj_on (idSupply s) {..<idsDrawn (onmessage now p s)}" "ids_ok s"
  shows "ids_ok (onmessage now p s)"
proof (cases p)
  case Malformed
  with assms(2) show ?thesis by (simp add: onmessage_def console_log_def ids_ok_def ids_drawn_def)
next
  case (Data d)
  consider (start) "streaming d = Some True \<and> \<not> truthy (chunk d)"
    | (chunk_old) "truthy (chunk d)" "messages s \<noteq> [] \<and> role (last (messages s)) = Assistant"
    | (chunk_new) "truthy (chunk d)" "\<not> (messages s \<noteq> [] \<and> role (last (messages s)) = Assistant)"
    | (stop) "\<not> truthy (chunk d)" "streaming d = Some False"
    | (err) "\<not> truthy (chunk d)" "streaming d = None" "truthy (error d)"
    | (none) "\<not> truthy (chunk d)" "streaming d = None" "\<not> truthy (error d)"
    by (cases "streaming d") auto
  then show ?thesis
  proof cases
    case start
    with assms(2) Data show ?thesis by (simp add: onmessage_def ids_ok_def ids_drawn_def)
  next
    case chunk_old
    with assms(2) Data show ?thesis
      by (simp add: onmessage_def append_chunk_def Let_def ids_ok_def ids_drawn_def
            map_msg_id_update_last del: map_append map_butlast)
  next
    case chunk_new
    show ?thesis
      by (rule ids_ok_append [OF assms, where m = "\<lparr>msg_id = idSupply s (idsDrawn s),
            role = Assistant, content = the (chunk d), timestamp = now\<rparr>"])
         (use chunk_new Data in \<open>auto simp: onmessage_def append_chunk_def Let_def generateId_def\<close>)
  next
    case stop
    with assms(2) Data show ?thesis by (simp add: onmessage_def ids_ok_def ids_drawn_def)
  next
    case err
    show ?thesis
      by (rule ids_ok_append [OF assms, where m = "\<lparr>msg_id = idSupply s (idsDrawn s),
            role = Assistant, content = error_text (the (error d)), timestamp = now\<rparr>"])
         (use err Data in \<open>auto simp: onmessage_def Let_def generateId_def console_log_def\<close>)
  next
    case none
    with assms(2) Data show ?thesis by (simp add: onmessage_def)
  qed
qed

lemma ids_ok_sendMessage:
  assumes "inj_on (idSupply s) {..<idsDrawn (sendMessage now t s)}" "ids_ok s"
  shows "ids_ok (sendMessage now t s)"
proof (cases "channel_open s")
  case True
  show ?thesis
    by (rule ids_ok_append [OF assms, where m = "\<lparr>msg_id = idSupply s (idsDrawn s),
          role = User, content = t, timestamp = now\<rparr>"])
       (use True in \<open>auto simp: sendMessage_def channel_open_def Let_def generateId_def
          split: option.splits\<close>)
next
  case False
  then have "sendMessage now t s = s\<lparr>console := console s @ [LogNotConnected]\<rparr>"
    by (auto simp: sendMessage_def channel_open_def console_log_def split: option.splits)
  with assms(2) show ?thesis by (simp add: ids_ok_def ids_drawn_def)
qed

lemma ids_ok_step:
  assumes "inj_on (idSupply s) {..<idsDrawn (step now e s)}" "ids_ok s"
  shows "ids_ok (step now e s)"
proof (cases e)
  case (TimerFired h)
  then show ?thesis
    using ids_ok_same [OF assms(2), of "fire_timer h s"] by (simp add: fire_timer_untouched)
next
  case (WsOpen i)
  then show ?thesis
    using assms(2) by (simp add: onopen_def console_log_def ids_ok_def ids_drawn_def)
next
  case (WsMessage i p)
  then show ?thesis using ids_ok_onmessage [of s now p] assms by simp
next
  case (WsError i)
  then show ?thesis
    using assms(2) by (simp add: onerror_def console_log_def ids_ok_def ids_drawn_def)
next
  case (WsClose i)
  then show ?thesis using assms(2) by (simp add: onclose_untouched ids_ok_def ids_drawn_def)
next
  case (SendMessage t)
  then show ?thesis using ids_ok_sendMessage [of s now t] assms by simp
next
  case ResetChat
  then show ?thesis using assms(2) by (simp add: resetChat_def ids_ok_def ids_drawn_def)
next
  case FetchResolved
  then show ?thesis by (simp add: resetChat_resolved_def ids_ok_def)
next
  case FetchRejected
  then show ?thesis
    using assms(2) by (simp add: resetChat_rejected_def console_log_def ids_ok_def ids_drawn_def)
next
  case Reconnect
  then show ?thesis
    using ids_ok_same [OF assms(2), of "reconnect s"] by (simp add: reconnect_def connect_untouched)
next
  case (SelectExpert p)
  then show ?thesis using assms(2) by (simp add: selectExpert_def ids_ok_def ids_drawn_def)
qed

lemma reachable_ids_ok: "reachable s \<Longrightarrow> inj_on (idSupply s) {..<idsDrawn s} \<Longrightarrow> ids_ok s"
proof (induction rule: reachable.induct)
  case (reachable_mounted url_ok ids p)
  then show ?case by (simp add: ids_ok_def mounted_def)
next
  case (reachable_step s e now)
  from reachable_step.prems have later: "inj_on (idSupply s) {..<idsDrawn (step now e s)}"
    by (simp add: idSupply_step)
  have "{..<idsDrawn s} \<subseteq> {..<idsDrawn (step now e s)}"
    using idsDrawn_step [of s now e] by simp
  with later have "inj_on (idSupply s) {..<idsDrawn s}" by (rule inj_on_subset)
  then have "ids_ok s" by (rule reachable_step.IH)
  with later show ?case by (rule ids_ok_step)
qed

lemma inj_sample_ids: "inj sample_ids"
proof (rule injI)
  fix x y assume "sample_ids x = sample_ids y"
  then have "length (sample_ids x) = length (sample_ids y)" by simp
  then show "x = y" by (simp add: sample_ids_def)
qed

text \<open>
  Claim C9, amended. Ids come from \<^verbatim>\<open>Math.random\<close>, so they are as distinct as its draws.
  In every reachable state, if the draws \<^verbatim>\<open>generateId\<close> has made so far are pairwise
  distinct, then the messages of the sequence have pairwise distinct ids, and each id is one
  of those draws; hence a next draw that differs from the earlier draws differs from the
  id of every message (whether the next message comes from \<^verbatim>\<open>sendMessage\<close>, a chunk frame or
  an error frame).
\<close>

theorem ids_distinct_when_draws_distinct:
  assumes "reachable s" and "inj_on (idSupply s) {..<idsDrawn s}"
  shows "distinct (map msg_id (messages s))
       \<and> set (map msg_id (messages s)) \<subseteq> idSupply s ` {..<idsDrawn s}
       \<and> (idSupply s (idsDrawn s) \<notin> idSupply s ` {..<idsDrawn s} \<longrightarrow>
            idSupply s (idsDrawn s) \<notin> set (map msg_id (messages s)))"
  using reachable_ids_ok [OF assms]
  by (auto simp: ids_ok_def ids_drawn_def)

text \<open>A question, an error frame and a streamed chunk: three messages, three ids.\<close>

theorem ids_distinct_when_draws_distinct_witness:
  "reachable (run [(0, TimerFired 0), (1, WsOpen 0), (2, SendMessage ''Hello''),
                   (3, WsMessage 0 (Data (error_frame ''rate limited''))),
                   (4, SendMessage ''Again''), (5, WsMessage 0 (Data (chunk_frame ''Hi'')))]
              fresh_session)
   \<and> inj_on sample_ids {..<4}
   \<and> idsDrawn (run [(0, TimerFired 0), (1, WsOpen 0), (2, SendMessage ''Hello''),
                   (3, WsMessage 0 (Data (error_frame ''rate limited''))),
                   (4, SendMessage ''Again''), (5, WsMessage 0 (Data (chunk_frame ''Hi'')))]
              fresh_session) = 4
   \<and> length (messages (run [(0, TimerFired 0), (1, WsOpen 0), (2, SendMessage ''Hello''),
                   (3, WsMessage 0 (Data (error_frame ''rate limited''))),
                   (4, SendMessage ''Again''), (5, WsMessage 0 (Data (chunk_frame ''Hi'')))]
              fresh_session)) = 4
   \<and> distinct (map msg_id (messages (run [(0, TimerFired 0), (1, WsOpen 0),
                   (2, SendMessage ''Hello''),
                   (3, WsMessage 0 (Data (error_frame ''rate limited''))),
                   (4, SendMessage ''Again''), (5, WsMessage 0 (Data (chunk_frame ''Hi'')))]
              fresh_session)))"
proof -
  define tr where "tr = [(0::nat, TimerFired 0), (1, WsOpen 0), (2, SendMessage ''Hello''),
                   (3, WsMessage 0 (Data (error_frame ''rate limited''))),
                   (4, SendMessage ''Again''), (5, WsMessage 0 (Data (chunk_frame ''Hi'')))]"
  have en: "run_enabled tr fresh_session"
    and len: "length (messages (run tr fresh_session)) = 4"
    and sup: "idSupply (run tr fresh_session) = sample_ids"
    and drawn: "idsDrawn (run tr fresh_session) = 4"
    by (simp_all add: tr_def sample_defs frame_defs handler_defs Let_def)
  have r: "reachable (run tr fresh_session)"
    using reachable_fresh_session en by (rule run_reachable)
  have i4: "inj_on sample_ids {..<4}"
    using inj_sample_ids by (rule inj_on_subset) simp
  then have i: "inj_on (idSupply (run tr fresh_session)) {..<idsDrawn (run tr fresh_session)}"
    by (simp add: sup drawn)
  from ids_distinct_when_draws_distinct [OF r i] r i4 len drawn
  have "reachable (run tr fresh_session) \<and> inj_on sample_ids {..<4}
    \<and> idsDrawn (run tr fresh_session) = 4
    \<and> length (messages (run tr fresh_session)) = 4
    \<and> distinct (map msg_id (messages (run tr fresh_session)))"
    by blast
  then show ?thesis unfolding tr_def .
qed

text \<open>
  C9 as stated fails when two draws agree: with \<^verbatim>\<open>Math.random()\<close> returning \<^verbatim>\<open>0.5\<close> twice, two
  messages sent one after the other both get the id \<^verbatim>\<open>i\<close>.
\<close>

theorem repeated_draw_repeats_id:
  "reachable (run [(0, TimerFired 0), (1, WsOpen 0), (2, SendMessage ''Hello''),
                   (3, SendMessage ''Again'')] (mounted True repeating_ids ''constitutional''))
   \<and> map msg_id (messages (run [(0, TimerFired 0), (1, WsOpen 0), (2, SendMessage ''Hello''),
                   (3, SendMessage ''Again'')] (mounted True repeating_ids ''constitutional'')))
       = [''i'', ''i'']
   \<and> \<not> distinct (map msg_id (messages (run [(0, TimerFired 0), (1, WsOpen 0),
                   (2, SendMessage ''Hello''), (3, SendMessage ''Again'')]
                 (mounted True repeating_ids ''constitutional''))))"
proof -
  define tr where "tr = [(0::nat, TimerFired 0), (1, WsOpen 0), (2, SendMessage ''Hello''),
                   (3, SendMessage ''Again'')]"
  have en: "run_enabled tr (mounted True repeating_ids ''constitutional'')"
    and ids: "map msg_id (messages (run tr (mounted True repeating_ids ''constitutional'')))
       = [''i'', ''i'']"
    by (simp_all add: tr_def sample_defs handler_defs Let_def)
  have r: "reachable (run tr (mounted True repeating_ids ''constitutional''))"
    using reachable_mounted en by (rule run_reachable)
  have "reachable (run tr (mounted True repeating_ids ''constitutional''))
   \<and> map msg_id (messages (run tr (mounted True repeating_ids ''constitutional''))) = [''i'', ''i'']
   \<and> \<not> distinct (map msg_id (messages (run tr (mounted True repeating_ids ''constitutional''))))"
    using r ids by simp
  then show ?thesis unfolding tr_def .
qed

section \<open>Sending a message\<close>

text \<open>
  Claim C3, amended. For every call \<^verbatim>\<open>sendMessage(text)\<close> made while the channel is not
  open (no socket yet, or the current socket's \<^verbatim>\<open>readyState\<close> is not \<^verbatim>\<open>OPEN\<close>), the call only
  writes one line to the console: the message sequence is unchanged, no frame is sent, and
  no other part of the state changes.
\<close>

theorem send_while_closed_is_noop:
  assumes "\<not> channel_open s"
  shows "messages (sendMessage now text s) = messages s
       \<and> sent (sendMessage now text s) = sent s
       \<and> sendMessage now text s = s\<lparr>console := console s @ [LogNotConnected]\<rparr>"
  using assms
  by (auto simp: sendMessage_def channel_open_def console_log_def split: option.splits)

theorem send_while_closed_is_noop_witness:
  "\<not> channel_open fresh_session
   \<and> messages (sendMessage 0 ''Hello'' fresh_session) = []
   \<and> sent (sendMessage 0 ''Hello'' fresh_session) = []
   \<and> console (sendMessage 0 ''Hello'' fresh_session) = [LogNotConnected]"
proof -
  have h: "\<not> channel_open fresh_session"
    by (simp add: channel_open_def sample_defs)
  from send_while_closed_is_noop [OF h, of 0 "''Hello''"] h show ?thesis
    by (simp add: sample_defs)
qed

text \<open>
  C3 as stated fails, because \<^verbatim>\<open>sendMessage\<close> tests the socket and not \<open>connectionStatus\<close>.
  Socket 0 is open when \<^verbatim>\<open>reconnect()\<close> is called; \<^verbatim>\<open>connect\<close> asks it to close and opens
  socket 1. Socket 1 opens, and then the close event of socket 0 arrives: its handler sets
  the status to \<^verbatim>\<open>disconnected\<close> although the current socket is open. A \<^verbatim>\<open>sendMessage\<close> in
  that state appends the user message and sends the frame.
\<close>

theorem send_while_disconnected_appends:
  "run_enabled [(0, TimerFired 0), (1, WsOpen 0), (2, Reconnect), (3, WsOpen 1), (4, WsClose 0)]
     fresh_session
   \<and> connectionStatus (run [(0, TimerFired 0), (1, WsOpen 0), (2, Reconnect), (3, WsOpen 1),
                            (4, WsClose 0)] fresh_session) = Disconnected
   \<and> messages (run [(0, TimerFired 0), (1, WsOpen 0), (2, Reconnect), (3, WsOpen 1),
                    (4, WsClose 0)] fresh_session) = []
   \<and> messages (sendMessage 5 ''Hello''
        (run [(0, TimerFired 0), (1, WsOpen 0), (2, Reconnect), (3, WsOpen 1), (4, WsClose 0)]
           fresh_session))
       = [\<lparr>msg_id = ''k'', role = User, content = ''Hello'', timestamp = 5\<rparr>]
   \<and> sent (sendMessage 5 ''Hello''
        (run [(0, TimerFired 0), (1, WsOpen 0), (2, Reconnect), (3, WsOpen 1), (4, WsClose 0)]
           fresh_session))
       = [(1, \<lparr>message = ''Hello'', expert_id = ''constitutional''\<rparr>)]"
  by (simp add: sample_defs handler_defs Let_def)

lemma expert_follows_selection:
  "currentExpertId (step now e s) = (case e of SelectExpert q \<Rightarrow> q | _ \<Rightarrow> currentExpertId s)"
  by (cases e)
     (simp_all add: fire_timer_untouched onclose_untouched connect_untouched onmessage_expert
        sendMessage_expert onopen_def onerror_def console_log_def reconnect_def resetChat_def
        resetChat_resolved_def resetChat_rejected_def selectExpert_def)

text \<open>
  Claim C4, amended. For every call \<^verbatim>\<open>sendMessage(text)\<close> made while the channel is open,
  exactly one message is appended: a user message with the given text, the clock reading of
  the call and a newly generated id, the next draw of \<^verbatim>\<open>generateId\<close>. In a reachable state
  that id differs from the id of every message in the sequence provided the draws made so
  far, this one included, are pairwise distinct. Exactly one frame
  \<^verbatim>\<open>{message: text, expert_id: p}\<close> is sent on the current socket, where \<open>p\<close> is the content of
  \<open>currentExpertId\<close>. That ref holds the persona selected last: a selection sets it without
  touching the socket, so the next frame on the same channel carries the new persona, and
  no other event changes it.
\<close>

theorem send_while_open:
  assumes "channel_open s"
  shows "messages (sendMessage now text s)
           = messages s @ [\<lparr>msg_id = idSupply s (idsDrawn s), role = User, content = text,
                            timestamp = now\<rparr>]
       \<and> idsDrawn (sendMessage now text s) = Suc (idsDrawn s)
       \<and> (reachable s \<and> inj_on (idSupply s) {..<Suc (idsDrawn s)} \<longrightarrow>
            idSupply s (idsDrawn s) \<notin> set (map msg_id (messages s))
            \<and> distinct (map msg_id (messages (sendMessage now text s))))
       \<and> sent (sendMessage now text s)
           = sent s @ [(the (wsRef s), \<lparr>message = text, expert_id = currentExpertId s\<rparr>)]
       \<and> channel_open (selectExpert p s)
       \<and> wsRef (selectExpert p s) = wsRef s
       \<and> sockets (selectExpert p s) = sockets s
       \<and> sent (sendMessage now text (selectExpert p s))
           = sent s @ [(the (wsRef s), \<lparr>message = text, expert_id = p\<rparr>)]
       \<and> currentExpertId (step now' e s)
           = (case e of SelectExpert q \<Rightarrow> q | _ \<Rightarrow> currentExpertId s)"
proof -
  have a: "messages (sendMessage now text s)
           = messages s @ [\<lparr>msg_id = idSupply s (idsDrawn s), role = User, content = text,
                            timestamp = now\<rparr>]
       \<and> idsDrawn (sendMessage now text s) = Suc (idsDrawn s)
       \<and> sent (sendMessage now text s)
           = sent s @ [(the (wsRef s), \<lparr>message = text, expert_id = currentExpertId s\<rparr>)]"
    using assms
    by (auto simp: sendMessage_def channel_open_def generateId_def Let_def split: option.splits)
  have b: "channel_open (selectExpert p s) \<and> wsRef (selectExpert p s) = wsRef s
       \<and> sockets (selectExpert p s) = sockets s"
    using assms
    by (auto simp: selectExpert_def channel_open_def ws_readyState_def split: option.splits)
  have c: "sent (sendMessage now text (selectExpert p s))
           = sent s @ [(the (wsRef s), \<lparr>message = text, expert_id = p\<rparr>)]"
    using assms
    by (auto simp: sendMessage_def channel_open_def generateId_def selectExpert_def
          ws_readyState_def Let_def split: option.splits)
  have f: "reachable s \<and> inj_on (idSupply s) {..<Suc (idsDrawn s)} \<longrightarrow>
            idSupply s (idsDrawn s) \<notin> set (map msg_id (messages s))
            \<and> distinct (map msg_id (messages (sendMessage now text s)))"
  proof
    assume h: "reachable s \<and> inj_on (idSupply s) {..<Suc (idsDrawn s)}"
    then have r: "reachable s" and i: "inj_on (idSupply s) {..<Suc (idsDrawn s)}" by simp_all
    have "{..<idsDrawn s} \<subseteq> {..<Suc (idsDrawn s)}" by auto
    with i have "inj_on (idSupply s) {..<idsDrawn s}" by (rule inj_on_subset)
    with r have ok: "ids_ok s" by (rule reachable_ids_ok)
    from fresh_draw [OF i] ok have new: "idSupply s (idsDrawn s) \<notin> set (map msg_id (messages s))"
      by (auto simp: ids_ok_def)
    with ok a show "idSupply s (idsDrawn s) \<notin> set (map msg_id (messages s))
            \<and> distinct (map msg_id (messages (sendMessage now text s)))"
      by (simp add: ids_ok_def)
  qed
  from a b c f expert_follows_selection [of now' e s] show ?thesis by simp
qed

text \<open>
  A send after a streamed chunk, with a persona switch after the channel was opened: the new
  message gets the second draw, and the frame carries the persona selected last.
\<close>

theorem send_while_open_witness:
  "channel_open (run [(0, TimerFired 0), (1, WsOpen 0), (2, WsMessage 0 (Data (chunk_frame ''Hi'')))]
      fresh_session)
   \<and> reachable (run [(0, TimerFired 0), (1, WsOpen 0), (2, WsMessage 0 (Data (chunk_frame ''Hi'')))]
      fresh_session)
   \<and> inj_on sample_ids {..<2}
   \<and> messages (sendMessage 3 ''Hello''
        (run [(0, TimerFired 0), (1, WsOpen 0), (2, WsMessage 0 (Data (chunk_frame ''Hi'')))]
           fresh_session))
       = [\<lparr>msg_id = ''k'', role = Assistant, content = ''Hi'', timestamp = 2\<rparr>,
          \<lparr>msg_id = ''kk'', role = User, content = ''Hello'', timestamp = 3\<rparr>]
   \<and> distinct (map msg_id (messages (sendMessage 3 ''Hello''
        (run [(0, TimerFired 0), (1, WsOpen 0), (2, WsMessage 0 (Data (chunk_frame ''Hi'')))]
           fresh_session))))
   \<and> sent (sendMessage 3 ''Hello''
        (run [(0, TimerFired 0), (1, WsOpen 0), (2, WsMessage 0 (Data (chunk_frame ''Hi'')))]
           fresh_session))
       = [(0, \<lparr>message = ''Hello'', expert_id = ''constitutional''\<rparr>)]
   \<and> sent (sendMessage 3 ''Hello''
        (selectExpert ''case_law''
          (run [(0, TimerFired 0), (1, WsOpen 0), (2, WsMessage 0 (Data (chunk_frame ''Hi'')))]
             fresh_session)))
       = [(0, \<lparr>message = ''Hello'', expert_id = ''case_law''\<rparr>)]"
proof -
  define tr where "tr = [(0::nat, TimerFired 0), (1, WsOpen 0),
      (2, WsMessage 0 (Data (chunk_frame ''Hi'')))]"
  define s where "s = run tr fresh_session"
  have en: "run_enabled tr fresh_session"
    by (simp add: tr_def sample_defs frame_defs handler_defs Let_def)
  have h: "channel_open s"
    and m: "messages s = [\<lparr>msg_id = ''k'', role = Assistant, content = ''Hi'', timestamp = 2\<rparr>]"
      "idsDrawn s = 1" "idSupply s = sample_ids" "sent s = []" "wsRef s = Some 0"
      "currentExpertId s = ''constitutional''"
    by (simp_all add: s_def tr_def sample_defs frame_defs handler_defs Let_def)
  have r: "reachable s"
    unfolding s_def using reachable_fresh_session en by (rule run_reachable)
  have i: "inj_on sample_ids {..<2}"
    using inj_sample_ids by (rule inj_on_subset) simp
  then have i': "inj_on (idSupply s) {..<Suc (idsDrawn s)}"
    by (simp add: m numeral_2_eq_2)
  note inst = send_while_open [OF h, of 3 "''Hello''" "''case_law''" 0 Reconnect]
  from inst r i' have d: "distinct (map msg_id (messages (sendMessage 3 ''Hello'' s)))"
    by blast
  from inst have rest: "messages (sendMessage 3 ''Hello'' s)
       = [\<lparr>msg_id = ''k'', role = Assistant, content = ''Hi'', timestamp = 2\<rparr>,
          \<lparr>msg_id = ''kk'', role = User, content = ''Hello'', timestamp = 3\<rparr>]
     \<and> sent (sendMessage 3 ''Hello'' s)
       = [(0, \<lparr>message = ''Hello'', expert_id = ''constitutional''\<rparr>)]
     \<and> sent (sendMessage 3 ''Hello'' (selectExpert ''case_law'' s))
       = [(0, \<lparr>message = ''Hello'', expert_id = ''case_law''\<rparr>)]"
    by (simp only: m) (simp add: sample_ids_def)
  from h r i d rest
  have "channel_open s \<and> reachable s \<and> inj_on sample_ids {..<2}
   \<and> messages (sendMessage 3 ''Hello'' s)
       = [\<lparr>msg_id = ''k'', role = Assistant, content = ''Hi'', timestamp = 2\<rparr>,
          \<lparr>msg_id = ''kk'', role = User, content = ''Hello'', timestamp = 3\<rparr>]
   \<and> distinct (map msg_id (messages (sendMessage 3 ''Hello'' s)))
   \<and> sent (sendMessage 3 ''Hello'' s)
       = [(0, \<lparr>message = ''Hello'', expert_id = ''constitutional''\<rparr>)]
   \<and> sent (sendMessage 3 ''Hello'' (selectExpert ''case_law'' s))
       = [(0, \<lparr>message = ''Hello'', expert_id = ''case_law''\<rparr>)]"
    by blast
  then show ?thesis unfolding s_def tr_def .
qed

text \<open>
  C4 as stated fails on the fresh id: when \<^verbatim>\<open>Math.random()\<close> returns \<^verbatim>\<open>0.5\<close> twice, the message
  sent gets the id \<^verbatim>\<open>i\<close> that the assistant message before it already has.
\<close>

theorem sent_message_repeats_id:
  "run_enabled [(0, TimerFired 0), (1, WsOpen 0), (2, WsMessage 0 (Data (chunk_frame ''Hi'')))]
      (mounted True repeating_ids ''constitutional'')
   \<and> channel_open (run [(0, TimerFired 0), (1, WsOpen 0),
                         (2, WsMessage 0 (Data (chunk_frame ''Hi'')))]
      (mounted True repeating_ids ''constitutional''))
   \<and> messages (run [(0, TimerFired 0), (1, WsOpen 0), (2, WsMessage 0 (Data (chunk_frame ''Hi'')))]
      (mounted True repeating_ids ''constitutional''))
       = [\<lparr>msg_id = ''i'', role = Assistant, content = ''Hi'', timestamp = 2\<rparr>]
   \<and> messages (sendMessage 3 ''Hello''
        (run [(0, TimerFired 0), (1, WsOpen 0), (2, WsMessage 0 (Data (chunk_frame ''Hi'')))]
           (mounted True repeating_ids ''constitutional'')))
       = [\<lparr>msg_id = ''i'', role = Assistant, content = ''Hi'', timestamp = 2\<rparr>,
          \<lparr>msg_id = ''i'', role = User, content = ''Hello'', timestamp = 3\<rparr>]"
  by (simp add: sample_defs frame_defs handler_defs Let_def)

section \<open>Connection status\<close>

text \<open>
  Claim C6, amended. The connection status after an event is fixed by the kind of the event,
  whatever the status was before: an open attempt (a timer firing, or \<^verbatim>\<open>reconnect\<close>) gives
  \<^verbatim>\<open>connecting\<close>, or \<^verbatim>\<open>error\<close> when the socket cannot be created; an open event gives
  \<^verbatim>\<open>connected\<close>, an error event \<^verbatim>\<open>error\<close>, a close event \<^verbatim>\<open>disconnected\<close>; every other event
  (inbound frames, \<^verbatim>\<open>sendMessage\<close>, \<^verbatim>\<open>resetChat\<close> and its settlement, a persona change) leaves
  the status as it is. So the edges of the claim are taken, and so are others: a failed
  connection goes from \<^verbatim>\<open>error\<close> to \<^verbatim>\<open>disconnected\<close>.
\<close>

theorem status_follows_event:
  "connectionStatus (step now e s) =
     (case e of
        TimerFired h \<Rightarrow>
          (if find_timer h s = None then connectionStatus s
           else if wsUrlOk s then Connecting else Error)
      | Reconnect \<Rightarrow> (if wsUrlOk s then Connecting else Error)
      | WsOpen i \<Rightarrow> Connected
      | WsError i \<Rightarrow> Error
      | WsClose i \<Rightarrow> Disconnected
      | _ \<Rightarrow> connectionStatus s)"
  by (cases e)
     (auto simp: handler_defs Let_def
           split: option.splits timer_callback.splits payload.splits prod.splits)

text \<open>
  C6 as stated fails on both edges it excludes. A connection attempt that fails raises the
  error event and then the close event: the status goes from \<^verbatim>\<open>connecting\<close> to \<^verbatim>\<open>error\<close> and
  from \<^verbatim>\<open>error\<close> to \<^verbatim>\<open>disconnected\<close>. An established connection that breaks raises the error
  event while the status is \<^verbatim>\<open>connected\<close>: the status goes from \<^verbatim>\<open>connected\<close> to \<^verbatim>\<open>error\<close>.
\<close>

theorem error_then_disconnected:
  "run_enabled [(0, TimerFired 0), (1, WsError 0), (2, WsClose 0)] fresh_session
   \<and> connectionStatus (run [(0, TimerFired 0)] fresh_session) = Connecting
   \<and> connectionStatus (run [(0, TimerFired 0), (1, WsError 0)] fresh_session) = Error
   \<and> connectionStatus (run [(0, TimerFired 0), (1, WsError 0), (2, WsClose 0)] fresh_session)
       = Disconnected
   \<and> run_enabled [(0, TimerFired 0), (1, WsOpen 0), (2, WsError 0)] fresh_session
   \<and> connectionStatus (run [(0, TimerFired 0), (1, WsOpen 0)] fresh_session) = Connected
   \<and> connectionStatus (run [(0, TimerFired 0), (1, WsOpen 0), (2, WsError 0)] fresh_session)
       = Error"
  by (simp add: sample_defs handler_defs Let_def)

section \<open>Assembling a streamed reply\<close>

lemma chunk_onto_assistant:
  assumes "chunk d = Some t" "t \<noteq> []" "messages s \<noteq> []" "role (last (messages s)) = Assistant"
  shows "onmessage now (Data d) s
    = s\<lparr>messages := butlast (messages s) @
          [(last (messages s))\<lparr>content := content (last (messages s)) @ t\<rparr>]\<rparr>"
  using assms by (simp add: onmessage_def truthy_def append_chunk_def Let_def)

lemma chunk_new_assistant:
  assumes "chunk d = Some t" "t \<noteq> []"
    and "\<not> (messages s \<noteq> [] \<and> role (last (messages s)) = Assistant)"
  shows "onmessage now (Data d) s
    = s\<lparr>idsDrawn := Suc (idsDrawn s),
         messages := messages s @
           [\<lparr>msg_id = idSupply s (idsDrawn s), role = Assistant, content = t, timestamp = now\<rparr>]\<rparr>"
  using assms
  by (auto simp add: onmessage_def truthy_def append_chunk_def Let_def generateId_def)

lemma stream_start_state: "onmessage now (Data stream_start) s = s\<lparr>isStreaming := True\<rparr>"
  by (simp add: onmessage_def truthy_def stream_start_def)

lemma chunk_of_frame:
  assumes "chunk_of e \<noteq> []"
  obtains w d where "e = WsMessage w (Data d)" "chunk d = Some (chunk_of e)"
  using assms by (cases e rule: chunk_of.cases) (auto split: option.splits)

lemma quiet_step:
  assumes "\<not> disturbs e s" "chunk_of e = []"
  shows "messages (step now e s) = messages s \<and> idsDrawn (step now e s) = idsDrawn s
       \<and> idSupply (step now e s) = idSupply s"
proof (cases e)
  case (TimerFired h)
  then show ?thesis by (simp add: fire_timer_untouched)
next
  case (WsOpen i)
  then show ?thesis by (simp add: onopen_def console_log_def)
next
  case (WsMessage i p)
  show ?thesis
  proof (cases p)
    case Malformed
    with WsMessage show ?thesis by (simp add: onmessage_def console_log_def)
  next
    case (Data d)
    with WsMessage assms have "\<not> truthy (chunk d)"
      by (auto simp: truthy_def split: option.splits)
    with WsMessage Data assms(1) show ?thesis
      by (auto simp: onmessage_def)
  qed
next
  case (WsError i)
  then show ?thesis by (simp add: onerror_def console_log_def)
next
  case (WsClose i)
  then show ?thesis by (simp add: onclose_untouched)
next
  case (SendMessage t)
  with assms(1) show ?thesis
    by (auto simp: sendMessage_def channel_open_def console_log_def split: option.splits)
next
  case ResetChat
  then show ?thesis by (simp add: resetChat_def)
next
  case FetchResolved
  with assms(1) show ?thesis by (simp add: resetChat_resolved_def)
next
  case FetchRejected
  then show ?thesis by (simp add: resetChat_rejected_def console_log_def)
next
  case Reconnect
  then show ?thesis by (simp add: reconnect_def connect_untouched)
next
  case (SelectExpert p)
  then show ?thesis by (simp add: selectExpert_def)
qed

lemma disturbing_step:
  assumes "disturbs e s"
  shows "messages (step now e s) \<noteq> messages s"
proof (cases e)
  case (WsMessage i p)
  with assms obtain d where p: "p = Data d" and
    d: "\<not> truthy (chunk d)" "streaming d = None" "truthy (error d)"
    by (cases p) auto
  with WsMessage show ?thesis
    by (simp add: onmessage_def generateId_def console_log_def Let_def)
next
  case (SendMessage t)
  with assms show ?thesis
    by (auto simp: sendMessage_def channel_open_def generateId_def Let_def split: option.splits)
next
  case FetchResolved
  with assms show ?thesis by (auto simp: resetChat_resolved_def)
qed (use assms in simp_all)

lemma disturbs_no_chunk: "disturbs e s \<Longrightarrow> chunk_of e = []"
  by (cases e rule: chunk_of.cases) (auto simp: truthy_def split: option.splits)

lemma run_onto_assistant:
  "undisturbed es s \<Longrightarrow> messages s \<noteq> [] \<Longrightarrow> role (last (messages s)) = Assistant \<Longrightarrow>
   messages (run es s)
     = butlast (messages s) @
       [(last (messages s))\<lparr>content := content (last (messages s)) @ chunk_text es\<rparr>]"
proof (induction es arbitrary: s)
  case Nil
  then show ?case by simp
next
  case (Cons a es)
  obtain now e where a: "a = (now, e)" by (cases a)
  from Cons.prems a have q: "\<not> disturbs e s" and u: "undisturbed es (step now e s)" by simp_all
  show ?case
  proof (cases "chunk_of e = []")
    case True
    from quiet_step [OF q True, of now] have m: "messages (step now e s) = messages s" by simp
    from Cons.IH [OF u] Cons.prems(2,3) show ?thesis by (simp add: a m True)
  next
    case False
    then obtain w d where e: "e = WsMessage w (Data d)" and d: "chunk d = Some (chunk_of e)"
      by (rule chunk_of_frame)
    have st: "messages (step now e s) = butlast (messages s) @
                 [(last (messages s))\<lparr>content := content (last (messages s)) @ chunk_of e\<rparr>]"
      using chunk_onto_assistant [OF d False Cons.prems(2,3), of now] by (simp add: e)
    have "messages (step now e s) \<noteq> []" "role (last (messages (step now e s))) = Assistant"
      using Cons.prems(3) by (simp_all add: st)
    from Cons.IH [OF u this] show ?thesis
      by (simp add: a st)
  qed
qed

lemma run_new_assistant:
  "undisturbed es s \<Longrightarrow> \<not> (messages s \<noteq> [] \<and> role (last (messages s)) = Assistant) \<Longrightarrow>
   chunk_text es \<noteq> [] \<Longrightarrow>
   messages (run es s)
     = messages s @ [\<lparr>msg_id = idSupply s (idsDrawn s), role = Assistant,
                      content = chunk_text es, timestamp = first_chunk_time es\<rparr>]"
proof (induction es arbitrary: s)
  case Nil
  then show ?case by simp
next
  case (Cons a es)
  obtain now e where a: "a = (now, e)" by (cases a)
  from Cons.prems a have q: "\<not> disturbs e s" and u: "undisturbed es (step now e s)" by simp_all
  show ?case
  proof (cases "chunk_of e = []")
    case True
    note m = quiet_step [OF q True, of now]
    from Cons.prems(2) m
    have c: "\<not> (messages (step now e s) \<noteq> [] \<and> role (last (messages (step now e s))) = Assistant)"
      by simp
    from Cons.prems(3) a True have t: "chunk_text es \<noteq> []" by simp
    from Cons.IH [OF u c t] show ?thesis by (simp add: a m True)
  next
    case False
    then obtain w d where e: "e = WsMessage w (Data d)" and d: "chunk d = Some (chunk_of e)"
      by (rule chunk_of_frame)
    have st: "step now e s = s\<lparr>idsDrawn := Suc (idsDrawn s),
         messages := messages s @
           [\<lparr>msg_id = idSupply s (idsDrawn s), role = Assistant, content = chunk_of e,
             timestamp = now\<rparr>]\<rparr>"
      using chunk_new_assistant [OF d False Cons.prems(2), of now] by (simp add: e)
    have "messages (step now e s) \<noteq> []" "role (last (messages (step now e s))) = Assistant"
      by (simp_all add: st)
    from run_onto_assistant [OF u this] False show ?thesis
      by (simp add: a st)
  qed
qed

lemma run_without_text:
  "undisturbed es s \<Longrightarrow> chunk_text es = [] \<Longrightarrow> messages (run es s) = messages s"
proof (induction es arbitrary: s)
  case Nil
  then show ?case by simp
next
  case (Cons a es)
  obtain now e where a: "a = (now, e)" by (cases a)
  from Cons.prems a have q: "\<not> disturbs e s" and u: "undisturbed es (step now e s)"
    and n: "chunk_of e = []" and t: "chunk_text es = []" by simp_all
  from Cons.IH [OF u t] quiet_step [OF q n, of now] show ?case by (simp add: a)
qed

lemma undisturbed_run:
  assumes "undisturbed es s"
  shows "messages (run es s) =
           (if messages s \<noteq> [] \<and> role (last (messages s)) = Assistant
            then butlast (messages s) @
                 [(last (messages s))\<lparr>content := content (last (messages s)) @ chunk_text es\<rparr>]
            else if chunk_text es = [] then messages s
            else messages s @
                 [\<lparr>msg_id = idSupply s (idsDrawn s), role = Assistant,
                   content = chunk_text es, timestamp = first_chunk_time es\<rparr>])"
proof (cases "messages s \<noteq> [] \<and> role (last (messages s)) = Assistant")
  case True
  then show ?thesis using run_onto_assistant [OF assms] by simp
next
  case False
  note closed = this
  show ?thesis
  proof (cases "chunk_text es = []")
    case True
    show ?thesis
      by (subst if_not_P [OF closed], subst if_P [OF True])
         (simp only: run_without_text [OF assms True])
  next
    case False
    show ?thesis
      by (subst if_not_P [OF closed], subst if_not_P [OF False])
         (simp only: run_new_assistant [OF assms closed False])
  qed
qed

text \<open>
  Claim C1, amended. For every inbound frame whose chunk is a non-empty text \<open>t\<close>: if the
  last message has role assistant, \<open>t\<close> is appended to that message's content and no message
  is created; otherwise a new assistant message with content \<open>t\<close> is appended to the
  sequence. Consequently, for the events that follow one stream-start frame, as long as
  none of them changes the message sequence other than a chunk frame (no \<^verbatim>\<open>sendMessage\<close> on
  an open channel, no frame with a non-empty error, no reset that resolves on a non-empty
  sequence): if the sequence ended in an assistant message at the stream start, that
  message's content is extended by the concatenation of the chunk texts in arrival order;
  otherwise, unless every chunk text is empty (then nothing is created), the sequence gains
  a single assistant message whose content is that concatenation. The three excluded events
  are exactly the events without chunk text that change the message sequence.
\<close>

theorem chunks_build_one_message:
  "(chunk d = Some t \<and> t \<noteq> [] \<longrightarrow>
      messages (onmessage now (Data d) s) =
        (if messages s \<noteq> [] \<and> role (last (messages s)) = Assistant
         then butlast (messages s) @
              [(last (messages s))\<lparr>content := content (last (messages s)) @ t\<rparr>]
         else messages s @
              [\<lparr>msg_id = idSupply s (idsDrawn s), role = Assistant, content = t,
                timestamp = now\<rparr>]))
   \<and> (undisturbed ((now, WsMessage w (Data stream_start)) # es) s \<longrightarrow>
      messages (run ((now, WsMessage w (Data stream_start)) # es) s) =
        (if messages s \<noteq> [] \<and> role (last (messages s)) = Assistant
         then butlast (messages s) @
              [(last (messages s))\<lparr>content := content (last (messages s)) @ chunk_text es\<rparr>]
         else if chunk_text es = [] then messages s
         else messages s @
              [\<lparr>msg_id = idSupply s (idsDrawn s), role = Assistant,
                content = chunk_text es, timestamp = first_chunk_time es\<rparr>]))
   \<and> (chunk_of e = [] \<longrightarrow> disturbs e s = (messages (step now e s) \<noteq> messages s))"
proof -
  let ?open = "messages s \<noteq> [] \<and> role (last (messages s)) = Assistant"
  have one: "chunk d = Some t \<and> t \<noteq> [] \<longrightarrow>
      messages (onmessage now (Data d) s) =
        (if ?open
         then butlast (messages s) @
              [(last (messages s))\<lparr>content := content (last (messages s)) @ t\<rparr>]
         else messages s @
              [\<lparr>msg_id = idSupply s (idsDrawn s), role = Assistant, content = t,
                timestamp = now\<rparr>])"
  proof
    assume h: "chunk d = Some t \<and> t \<noteq> []"
    then have c: "chunk d = Some t" and t: "t \<noteq> []" by simp_all
    show "messages (onmessage now (Data d) s) =
        (if ?open
         then butlast (messages s) @
              [(last (messages s))\<lparr>content := content (last (messages s)) @ t\<rparr>]
         else messages s @
              [\<lparr>msg_id = idSupply s (idsDrawn s), role = Assistant, content = t,
                timestamp = now\<rparr>])"
    proof (cases ?open)
      case True
      then show ?thesis using chunk_onto_assistant [OF c t, of s now] by simp
    next
      case False
      show ?thesis
        by (subst if_not_P [OF False]) (simp add: chunk_new_assistant [OF c t False])
    qed
  qed
  have many: "undisturbed ((now, WsMessage w (Data stream_start)) # es) s \<longrightarrow>
      messages (run ((now, WsMessage w (Data stream_start)) # es) s) =
        (if ?open
         then butlast (messages s) @
              [(last (messages s))\<lparr>content := content (last (messages s)) @ chunk_text es\<rparr>]
         else if chunk_text es = [] then messages s
         else messages s @
              [\<lparr>msg_id = idSupply s (idsDrawn s), role = Assistant,
                content = chunk_text es, timestamp = first_chunk_time es\<rparr>])"
  proof
    assume u: "undisturbed ((now, WsMessage w (Data stream_start)) # es) s"
    have c: "chunk_text ((now, WsMessage w (Data stream_start)) # es) = chunk_text es"
      "first_chunk_time ((now, WsMessage w (Data stream_start)) # es) = first_chunk_time es"
      by (simp_all add: stream_start_def)
    from undisturbed_run [OF u]
    show "messages (run ((now, WsMessage w (Data stream_start)) # es) s) =
        (if ?open
         then butlast (messages s) @
              [(last (messages s))\<lparr>content := content (last (messages s)) @ chunk_text es\<rparr>]
         else if chunk_text es = [] then messages s
         else messages s @
              [\<lparr>msg_id = idSupply s (idsDrawn s), role = Assistant,
                content = chunk_text es, timestamp = first_chunk_time es\<rparr>])"
      by (simp only: c)
  qed
  have exact: "chunk_of e = [] \<longrightarrow> disturbs e s = (messages (step now e s) \<noteq> messages s)"
    using quiet_step [of e s now] disturbing_step [of e s now] by blast
  from one many exact show ?thesis by blast
qed

text \<open>
  The scenario of the specification, with other events between the chunks: after the user's
  question, \<^verbatim>\<open>{streaming: true}\<close>, \<^verbatim>\<open>{chunk: "Article "}\<close>, a persona change, a malformed frame,
  a reset that fails, and \<^verbatim>\<open>{chunk: "75."}\<close> give one assistant message \<^verbatim>\<open>Article 75.\<close>
  A \<^verbatim>\<open>sendMessage\<close> on the open channel is an event that changes the sequence.
\<close>

theorem chunks_build_one_message_witness:
  "chunk (chunk_frame ''Article '') = Some ''Article '' \<and> ''Article '' \<noteq> []
   \<and> messages (onmessage 4 (Data (chunk_frame ''Article ''))
        (run [(0, TimerFired 0), (1, WsOpen 0), (2, SendMessage ''Hello'')] fresh_session))
       = [\<lparr>msg_id = ''k'', role = User, content = ''Hello'', timestamp = 2\<rparr>,
          \<lparr>msg_id = ''kk'', role = Assistant, content = ''Article '', timestamp = 4\<rparr>]
   \<and> undisturbed
        [(3, WsMessage 0 (Data stream_start)), (4, WsMessage 0 (Data (chunk_frame ''Article ''))),
         (5, SelectExpert ''case_law''), (6, WsMessage 0 Malformed), (7, ResetChat),
         (8, FetchRejected), (9, WsMessage 0 (Data (chunk_frame ''75.'')))]
        (run [(0, TimerFired 0), (1, WsOpen 0), (2, SendMessage ''Hello'')] fresh_session)
   \<and> messages (run
        [(3, WsMessage 0 (Data stream_start)), (4, WsMessage 0 (Data (chunk_frame ''Article ''))),
         (5, SelectExpert ''case_law''), (6, WsMessage 0 Malformed), (7, ResetChat),
         (8, FetchRejected), (9, WsMessage 0 (Data (chunk_frame ''75.'')))]
        (run [(0, TimerFired 0), (1, WsOpen 0), (2, SendMessage ''Hello'')] fresh_session))
       = [\<lparr>msg_id = ''k'', role = User, content = ''Hello'', timestamp = 2\<rparr>,
          \<lparr>msg_id = ''kk'', role = Assistant, content = ''Article 75.'', timestamp = 4\<rparr>]
   \<and> chunk_of (SendMessage ''More'') = []
   \<and> disturbs (SendMessage ''More'')
        (run [(0, TimerFired 0), (1, WsOpen 0), (2, SendMessage ''Hello'')] fresh_session)
   \<and> messages (step 3 (SendMessage ''More'')
        (run [(0, TimerFired 0), (1, WsOpen 0), (2, SendMessage ''Hello'')] fresh_session))
       \<noteq> messages (run [(0, TimerFired 0), (1, WsOpen 0), (2, SendMessage ''Hello'')] fresh_session)"
proof -
  define s where "s = run [(0, TimerFired 0), (1, WsOpen 0), (2, SendMessage ''Hello'')] fresh_session"
  define es where "es = [(4::nat, WsMessage 0 (Data (chunk_frame ''Article ''))),
         (5, SelectExpert ''case_law''), (6, WsMessage 0 Malformed), (7, ResetChat),
         (8, FetchRejected), (9, WsMessage 0 (Data (chunk_frame ''75.'')))]"
  have h: "chunk (chunk_frame ''Article '') = Some ''Article ''" "''Article '' \<noteq> []"
    by (simp_all add: chunk_frame_def)
  have m: "messages s = [\<lparr>msg_id = ''k'', role = User, content = ''Hello'', timestamp = 2\<rparr>]"
    "idsDrawn s = 1" "idSupply s = sample_ids"
    and d: "disturbs (SendMessage ''More'') s"
    and u: "undisturbed ((3, WsMessage 0 (Data stream_start)) # es) s"
    by (simp_all add: s_def es_def sample_defs frame_defs handler_defs Let_def)
  have c: "chunk_text es = ''Article 75.''" "first_chunk_time es = 4"
    by (simp_all add: es_def chunk_frame_def)
  have n: "chunk_of (SendMessage ''More'') = []" by simp
  note inst1 = chunks_build_one_message [of "chunk_frame ''Article ''" "''Article ''" 4 s 0 es
      "SendMessage ''More''"]
  note inst2 = chunks_build_one_message [of "chunk_frame ''Article ''" "''Article ''" 3 s 0 es
      "SendMessage ''More''"]
  have a: "messages (onmessage 4 (Data (chunk_frame ''Article '')) s)
       = [\<lparr>msg_id = ''k'', role = User, content = ''Hello'', timestamp = 2\<rparr>,
          \<lparr>msg_id = ''kk'', role = Assistant, content = ''Article '', timestamp = 4\<rparr>]"
    using inst1 h by (simp only: m) (simp add: sample_ids_def)
  have b: "messages (run ((3, WsMessage 0 (Data stream_start)) # es) s)
       = [\<lparr>msg_id = ''k'', role = User, content = ''Hello'', timestamp = 2\<rparr>,
          \<lparr>msg_id = ''kk'', role = Assistant, content = ''Article 75.'', timestamp = 4\<rparr>]"
  proof -
    from inst2 u have "messages (run ((3, WsMessage 0 (Data stream_start)) # es) s) =
        (if messages s \<noteq> [] \<and> role (last (messages s)) = Assistant
         then butlast (messages s) @
              [(last (messages s))\<lparr>content := content (last (messages s)) @ chunk_text es\<rparr>]
         else if chunk_text es = [] then messages s
         else messages s @
              [\<lparr>msg_id = idSupply s (idsDrawn s), role = Assistant,
                content = chunk_text es, timestamp = first_chunk_time es\<rparr>])"
      by blast
    then show ?thesis by (simp only: m c) (simp add: sample_ids_def)
  qed
  have e: "messages (step 3 (SendMessage ''More'') s) \<noteq> messages s"
    using inst2 n d by blast
  from h a u b n d e
  have "chunk (chunk_frame ''Article '') = Some ''Article '' \<and> ''Article '' \<noteq> []
   \<and> messages (onmessage 4 (Data (chunk_frame ''Article '')) s)
       = [\<lparr>msg_id = ''k'', role = User, content = ''Hello'', timestamp = 2\<rparr>,
          \<lparr>msg_id = ''kk'', role = Assistant, content = ''Article '', timestamp = 4\<rparr>]
   \<and> undisturbed ((3, WsMessage 0 (Data stream_start)) # es) s
   \<and> messages (run ((3, WsMessage 0 (Data stream_start)) # es) s)
       = [\<lparr>msg_id = ''k'', role = User, content = ''Hello'', timestamp = 2\<rparr>,
          \<lparr>msg_id = ''kk'', role = Assistant, content = ''Article 75.'', timestamp = 4\<rparr>]
   \<and> chunk_of (SendMessage ''More'') = []
   \<and> disturbs (SendMessage ''More'') s
   \<and> messages (step 3 (SendMessage ''More'') s) \<noteq> messages s"
    by blast
  then show ?thesis unfolding s_def es_def .
qed

text \<open>
  C1 as stated fails in four ways. A frame \<^verbatim>\<open>{chunk: ""}\<close> after the user's question creates
  no assistant message (the claim asks for one with empty content). A stream that starts
  while the sequence ends in an assistant message, here the message of an error frame, is
  appended to that message: its content is not the concatenation of the chunk texts. An
  error frame between two chunks appends an assistant message of its own, and the second
  chunk goes to it: the reply is split, although no non-assistant message intervened. And a
  reset that resolves between two chunks empties the sequence, so that the assistant
  message holds the second chunk only.
\<close>

theorem empty_chunk_creates_no_message:
  "run_enabled [(0, TimerFired 0), (1, WsOpen 0), (2, SendMessage ''Hello''),
                (3, WsMessage 0 (Data stream_start)), (4, WsMessage 0 (Data (chunk_frame [])))]
     fresh_session
   \<and> messages (run [(0, TimerFired 0), (1, WsOpen 0), (2, SendMessage ''Hello''),
                    (3, WsMessage 0 (Data stream_start)),
                    (4, WsMessage 0 (Data (chunk_frame [])))] fresh_session)
       = [\<lparr>msg_id = ''k'', role = User, content = ''Hello'', timestamp = 2\<rparr>]
   \<and> run_enabled [(0, TimerFired 0), (1, WsOpen 0),
                  (2, WsMessage 0 (Data (error_frame ''rate limited''))),
                  (3, WsMessage 0 (Data stream_start)),
                  (4, WsMessage 0 (Data (chunk_frame ''Hi'')))] fresh_session
   \<and> messages (run [(0, TimerFired 0), (1, WsOpen 0),
                    (2, WsMessage 0 (Data (error_frame ''rate limited''))),
                    (3, WsMessage 0 (Data stream_start)),
                    (4, WsMessage 0 (Data (chunk_frame ''Hi'')))] fresh_session)
       = [\<lparr>msg_id = ''k'', role = Assistant,
           content = ''I apologize, but I encountered an error: rate limitedHi'',
           timestamp = 2\<rparr>]
   \<and> run_enabled [(0, TimerFired 0), (1, WsOpen 0), (2, SendMessage ''Hello''),
                  (3, WsMessage 0 (Data stream_start)),
                  (4, WsMessage 0 (Data (chunk_frame ''Article ''))),
                  (5, WsMessage 0 (Data (error_frame ''rate limited''))),
                  (6, WsMessage 0 (Data (chunk_frame ''75.'')))] fresh_session
   \<and> messages (run [(0, TimerFired 0), (1, WsOpen 0), (2, SendMessage ''Hello''),
                    (3, WsMessage 0 (Data stream_start)),
                    (4, WsMessage 0 (Data (chunk_frame ''Article ''))),
                    (5, WsMessage 0 (Data (error_frame ''rate limited''))),
                    (6, WsMessage 0 (Data (chunk_frame ''75.'')))] fresh_session)
       = [\<lparr>msg_id = ''k'', role = User, content = ''Hello'', timestamp = 2\<rparr>,
          \<lparr>msg_id = ''kk'', role = Assistant, content = ''Article '', timestamp = 4\<rparr>,
          \<lparr>msg_id = ''kkk'', role = Assistant,
           content = ''I apologize, but I encountered an error: rate limited75.'',
           timestamp = 5\<rparr>]
   \<and> run_enabled [(0, TimerFired 0), (1, WsOpen 0), (2, SendMessage ''Hello''), (3, ResetChat),
                  (4, WsMessage 0 (Data stream_start)),
                  (5, WsMessage 0 (Data (chunk_frame ''Article ''))),
                  (6, FetchResolved),
                  (7, WsMessage 0 (Data (chunk_frame ''75.'')))] fresh_session
   \<and> messages (run [(0, TimerFired 0), (1, WsOpen 0), (2, SendMessage ''Hello''), (3, ResetChat),
                    (4, WsMessage 0 (Data stream_start)),
                    (5, WsMessage 0 (Data (chunk_frame ''Article ''))),
                    (6, FetchResolved),
                    (7, WsMessage 0 (Data (chunk_frame ''75.'')))] fresh_session)
       = [\<lparr>msg_id = ''kkk'', role = Assistant, content = ''75.'', timestamp = 7\<rparr>]"
  by (simp add: sample_defs frame_defs handler_defs Let_def)

text \<open>
  Claim C8, amended. A chunk frame with text changes the message sequence only at its end:
  it appends its text to the last message when that is an assistant message and otherwise
  appends a new assistant message, so that afterwards the last element is the assistant
  message being streamed; no other message is touched, and no two messages are open for
  appending. That message stays the last element, and is the one all later chunks extend,
  for as long as no other event changes the message sequence (a \<^verbatim>\<open>sendMessage\<close> on an open
  channel, a frame with a non-empty error, a reset that resolves on a non-empty sequence).
  \<^verbatim>\<open>sendMessage\<close> does not look at \<open>isStreaming\<close>: on an open channel it appends the user
  message whether a stream is running or not, and the next chunk then starts a new
  assistant message after it. The three excluded events are exactly the events without
  chunk text that change the message sequence. All of this holds in every state, reachable
  or not, streaming or not.
\<close>

theorem chunk_extends_only_tail:
  assumes "chunk d = Some t" and "t \<noteq> []"
  shows "messages (onmessage now (Data d) s) =
           (if messages s \<noteq> [] \<and> role (last (messages s)) = Assistant
            then butlast (messages s) @
                 [(last (messages s))\<lparr>content := content (last (messages s)) @ t\<rparr>]
            else messages s @
                 [\<lparr>msg_id = idSupply s (idsDrawn s), role = Assistant, content = t,
                   timestamp = now\<rparr>])
       \<and> messages (onmessage now (Data d) s) \<noteq> []
       \<and> role (last (messages (onmessage now (Data d) s))) = Assistant
       \<and> (undisturbed es (onmessage now (Data d) s) \<longrightarrow>
            messages (run es (onmessage now (Data d) s)) =
              butlast (messages (onmessage now (Data d) s)) @
              [(last (messages (onmessage now (Data d) s)))
                 \<lparr>content := content (last (messages (onmessage now (Data d) s))) @ chunk_text es\<rparr>])
       \<and> (channel_open s \<longrightarrow>
            isStreaming (sendMessage now' text s) = isStreaming s
            \<and> messages (onmessage now (Data d) (sendMessage now' text s)) =
                messages s @
                [\<lparr>msg_id = idSupply s (idsDrawn s), role = User, content = text,
                  timestamp = now'\<rparr>,
                 \<lparr>msg_id = idSupply s (Suc (idsDrawn s)), role = Assistant, content = t,
                  timestamp = now\<rparr>])
       \<and> (chunk_of e = [] \<longrightarrow> disturbs e s = (messages (step now' e s) \<noteq> messages s))"
proof -
  let ?s' = "onmessage now (Data d) s"
  let ?open = "messages s \<noteq> [] \<and> role (last (messages s)) = Assistant"
  have one: "messages ?s' =
           (if ?open
            then butlast (messages s) @
                 [(last (messages s))\<lparr>content := content (last (messages s)) @ t\<rparr>]
            else messages s @
                 [\<lparr>msg_id = idSupply s (idsDrawn s), role = Assistant, content = t,
                   timestamp = now\<rparr>])"
  proof (cases ?open)
    case True
    then show ?thesis using chunk_onto_assistant [OF assms, of s now] by simp
  next
    case False
    show ?thesis
      by (subst if_not_P [OF False]) (simp add: chunk_new_assistant [OF assms False])
  qed
  have tail: "messages ?s' \<noteq> []" "role (last (messages ?s')) = Assistant"
    by (cases ?open; simp add: one)+
  have later: "undisturbed es ?s' \<longrightarrow>
            messages (run es ?s') =
              butlast (messages ?s') @
              [(last (messages ?s'))\<lparr>content := content (last (messages ?s')) @ chunk_text es\<rparr>]"
    using run_onto_assistant [OF _ tail, of es] by blast
  have send: "channel_open s \<longrightarrow>
            isStreaming (sendMessage now' text s) = isStreaming s
            \<and> messages (onmessage now (Data d) (sendMessage now' text s)) =
                messages s @
                [\<lparr>msg_id = idSupply s (idsDrawn s), role = User, content = text,
                  timestamp = now'\<rparr>,
                 \<lparr>msg_id = idSupply s (Suc (idsDrawn s)), role = Assistant, content = t,
                  timestamp = now\<rparr>]"
  proof
    assume o: "channel_open s"
    let ?u = "sendMessage now' text s"
    from o have u: "?u = s\<lparr>idsDrawn := Suc (idsDrawn s),
        messages := messages s @ [\<lparr>msg_id = idSupply s (idsDrawn s), role = User,
                                   content = text, timestamp = now'\<rparr>],
        sent := sent s @ [(the (wsRef s), \<lparr>message = text, expert_id = currentExpertId s\<rparr>)]\<rparr>"
      by (auto simp: sendMessage_def channel_open_def generateId_def Let_def split: option.splits)
    have c: "\<not> (messages ?u \<noteq> [] \<and> role (last (messages ?u)) = Assistant)"
      by (simp add: u)
    show "isStreaming ?u = isStreaming s
            \<and> messages (onmessage now (Data d) ?u) =
                messages s @
                [\<lparr>msg_id = idSupply s (idsDrawn s), role = User, content = text,
                  timestamp = now'\<rparr>,
                 \<lparr>msg_id = idSupply s (Suc (idsDrawn s)), role = Assistant, content = t,
                  timestamp = now\<rparr>]"
      by (simp add: chunk_new_assistant [OF assms c]) (simp add: u)
  qed
  have exact: "chunk_of e = [] \<longrightarrow> disturbs e s = (messages (step now' e s) \<noteq> messages s)"
    using quiet_step [of e s now'] disturbing_step [of e s now'] by blast
  from one tail later send exact show ?thesis by blast
qed

text \<open>
  In the middle of a stream: the first chunk opens the assistant message, a persona change,
  a second chunk and the stream-end frame follow, and the reply is one message at the end
  of the sequence. Had the user sent a message just before the first chunk, the chunk would
  have opened its message after it.
\<close>

theorem chunk_extends_only_tail_witness:
  "chunk (chunk_frame ''Article '') = Some ''Article '' \<and> ''Article '' \<noteq> []
   \<and> isStreaming (run [(0, TimerFired 0), (1, WsOpen 0), (2, SendMessage ''Hello''),
                       (3, WsMessage 0 (Data stream_start))] fresh_session)
   \<and> channel_open (run [(0, TimerFired 0), (1, WsOpen 0), (2, SendMessage ''Hello''),
                       (3, WsMessage 0 (Data stream_start))] fresh_session)
   \<and> undisturbed [(5, SelectExpert ''case_law''), (6, WsMessage 0 (Data (chunk_frame ''75.''))),
                   (7, WsMessage 0 (Data stream_end))]
        (onmessage 4 (Data (chunk_frame ''Article ''))
          (run [(0, TimerFired 0), (1, WsOpen 0), (2, SendMessage ''Hello''),
                (3, WsMessage 0 (Data stream_start))] fresh_session))
   \<and> messages (run [(5, SelectExpert ''case_law''), (6, WsMessage 0 (Data (chunk_frame ''75.''))),
                    (7, WsMessage 0 (Data stream_end))]
        (onmessage 4 (Data (chunk_frame ''Article ''))
          (run [(0, TimerFired 0), (1, WsOpen 0), (2, SendMessage ''Hello''),
                (3, WsMessage 0 (Data stream_start))] fresh_session)))
       = [\<lparr>msg_id = ''k'', role = User, content = ''Hello'', timestamp = 2\<rparr>,
          \<lparr>msg_id = ''kk'', role = Assistant, content = ''Article 75.'', timestamp = 4\<rparr>]
   \<and> messages (onmessage 4 (Data (chunk_frame ''Article ''))
        (sendMessage 3 ''More''
          (run [(0, TimerFired 0), (1, WsOpen 0), (2, SendMessage ''Hello''),
                (3, WsMessage 0 (Data stream_start))] fresh_session)))
       = [\<lparr>msg_id = ''k'', role = User, content = ''Hello'', timestamp = 2\<rparr>,
          \<lparr>msg_id = ''kk'', role = User, content = ''More'', timestamp = 3\<rparr>,
          \<lparr>msg_id = ''kkk'', role = Assistant, content = ''Article '', timestamp = 4\<rparr>]"
proof -
  define s where "s = run [(0, TimerFired 0), (1, WsOpen 0), (2, SendMessage ''Hello''),
                (3, WsMessage 0 (Data stream_start))] fresh_session"
  define es where "es = [(5::nat, SelectExpert ''case_law''),
      (6, WsMessage 0 (Data (chunk_frame ''75.''))), (7, WsMessage 0 (Data stream_end))]"
  have h: "chunk (chunk_frame ''Article '') = Some ''Article ''" "''Article '' \<noteq> []"
    by (simp_all add: chunk_frame_def)
  have m: "messages s = [\<lparr>msg_id = ''k'', role = User, content = ''Hello'', timestamp = 2\<rparr>]"
    "idsDrawn s = 1" "idSupply s = sample_ids"
    and st: "isStreaming s" and o: "channel_open s"
    and u: "undisturbed es (onmessage 4 (Data (chunk_frame ''Article '')) s)"
    by (simp_all add: s_def es_def sample_defs frame_defs handler_defs Let_def)
  have c: "chunk_text es = ''75.''"
    by (simp add: es_def frame_defs)
  note inst = chunk_extends_only_tail [OF h, of 4 s es 3 "''More''" Reconnect]
  from inst have one: "messages (onmessage 4 (Data (chunk_frame ''Article '')) s)
       = [\<lparr>msg_id = ''k'', role = User, content = ''Hello'', timestamp = 2\<rparr>,
          \<lparr>msg_id = ''kk'', role = Assistant, content = ''Article '', timestamp = 4\<rparr>]"
    by (simp only: m) (simp add: sample_ids_def)
  from inst u have "messages (run es (onmessage 4 (Data (chunk_frame ''Article '')) s)) =
              butlast (messages (onmessage 4 (Data (chunk_frame ''Article '')) s)) @
              [(last (messages (onmessage 4 (Data (chunk_frame ''Article '')) s)))
                 \<lparr>content := content (last (messages (onmessage 4 (Data (chunk_frame ''Article '')) s)))
                    @ chunk_text es\<rparr>]"
    by blast
  then have a: "messages (run es (onmessage 4 (Data (chunk_frame ''Article '')) s))
       = [\<lparr>msg_id = ''k'', role = User, content = ''Hello'', timestamp = 2\<rparr>,
          \<lparr>msg_id = ''kk'', role = Assistant, content = ''Article 75.'', timestamp = 4\<rparr>]"
    by (simp only: one c) simp
  from inst o have "messages (onmessage 4 (Data (chunk_frame ''Article '')) (sendMessage 3 ''More'' s)) =
                messages s @
                [\<lparr>msg_id = idSupply s (idsDrawn s), role = User, content = ''More'',
                  timestamp = 3\<rparr>,
                 \<lparr>msg_id = idSupply s (Suc (idsDrawn s)), role = Assistant, content = ''Article '',
                  timestamp = 4\<rparr>]"
    by blast
  then have b: "messages (onmessage 4 (Data (chunk_frame ''Article '')) (sendMessage 3 ''More'' s))
       = [\<lparr>msg_id = ''k'', role = User, content = ''Hello'', timestamp = 2\<rparr>,
          \<lparr>msg_id = ''kk'', role = User, content = ''More'', timestamp = 3\<rparr>,
          \<lparr>msg_id = ''kkk'', role = Assistant, content = ''Article '', timestamp = 4\<rparr>]"
    by (simp only: m) (simp add: sample_ids_def)
  from h st o u a b
  have "chunk (chunk_frame ''Article '') = Some ''Article '' \<and> ''Article '' \<noteq> []
   \<and> isStreaming s \<and> channel_open s
   \<and> undisturbed es (onmessage 4 (Data (chunk_frame ''Article '')) s)
   \<and> messages (run es (onmessage 4 (Data (chunk_frame ''Article '')) s))
       = [\<lparr>msg_id = ''k'', role = User, content = ''Hello'', timestamp = 2\<rparr>,
          \<lparr>msg_id = ''kk'', role = Assistant, content = ''Article 75.'', timestamp = 4\<rparr>]
   \<and> messages (onmessage 4 (Data (chunk_frame ''Article '')) (sendMessage 3 ''More'' s))
       = [\<lparr>msg_id = ''k'', role = User, content = ''Hello'', timestamp = 2\<rparr>,
          \<lparr>msg_id = ''kk'', role = User, content = ''More'', timestamp = 3\<rparr>,
          \<lparr>msg_id = ''kkk'', role = Assistant, content = ''Article '', timestamp = 4\<rparr>]"
    by blast
  then show ?thesis unfolding s_def es_def .
qed

text \<open>
  C8 as stated fails when the user sends a message in the middle of a stream: the state is
  reachable, \<open>isStreaming\<close> is true, and the last element is the user's message, not the
  assistant message being streamed; the next chunk of the same reply opens a second
  assistant message. It fails as well when a reset resolves in the middle of a stream: the
  state is reachable, \<open>isStreaming\<close> is true, and the sequence is empty. The third event
  that takes the streamed message from the end of the sequence is an error frame, which
  appends a message of its own (and ends the stream).
\<close>

theorem user_message_splits_stream:
  "reachable (run [(0, TimerFired 0), (1, WsOpen 0), (2, SendMessage ''Hello''),
                   (3, WsMessage 0 (Data stream_start)),
                   (4, WsMessage 0 (Data (chunk_frame ''Article ''))),
                   (5, SendMessage ''More'')] fresh_session)
   \<and> isStreaming (run [(0, TimerFired 0), (1, WsOpen 0), (2, SendMessage ''Hello''),
                   (3, WsMessage 0 (Data stream_start)),
                   (4, WsMessage 0 (Data (chunk_frame ''Article ''))),
                   (5, SendMessage ''More'')] fresh_session)
   \<and> messages (run [(0, TimerFired 0), (1, WsOpen 0), (2, SendMessage ''Hello''),
                   (3, WsMessage 0 (Data stream_start)),
                   (4, WsMessage 0 (Data (chunk_frame ''Article ''))),
                   (5, SendMessage ''More'')] fresh_session)
       = [\<lparr>msg_id = ''k'', role = User, content = ''Hello'', timestamp = 2\<rparr>,
          \<lparr>msg_id = ''kk'', role = Assistant, content = ''Article '', timestamp = 4\<rparr>,
          \<lparr>msg_id = ''kkk'', role = User, content = ''More'', timestamp = 5\<rparr>]
   \<and> messages (run [(0, TimerFired 0), (1, WsOpen 0), (2, SendMessage ''Hello''),
                   (3, WsMessage 0 (Data stream_start)),
                   (4, WsMessage 0 (Data (chunk_frame ''Article ''))),
                   (5, SendMessage ''More''),
                   (6, WsMessage 0 (Data (chunk_frame ''75.'')))] fresh_session)
       = [\<lparr>msg_id = ''k'', role = User, content = ''Hello'', timestamp = 2\<rparr>,
          \<lparr>msg_id = ''kk'', role = Assistant, content = ''Article '', timestamp = 4\<rparr>,
          \<lparr>msg_id = ''kkk'', role = User, content = ''More'', timestamp = 5\<rparr>,
          \<lparr>msg_id = ''kkkk'', role = Assistant, content = ''75.'', timestamp = 6\<rparr>]
   \<and> reachable (run [(0, TimerFired 0), (1, WsOpen 0), (2, SendMessage ''Hello''), (3, ResetChat),
                   (4, WsMessage 0 (Data stream_start)),
                   (5, WsMessage 0 (Data (chunk_frame ''Article ''))),
                   (6, FetchResolved)] fresh_session)
   \<and> isStreaming (run [(0, TimerFired 0), (1, WsOpen 0), (2, SendMessage ''Hello''),
                   (3, ResetChat), (4, WsMessage 0 (Data stream_start)),
                   (5, WsMessage 0 (Data (chunk_frame ''Article ''))),
                   (6, FetchResolved)] fresh_session)
   \<and> messages (run [(0, TimerFired 0), (1, WsOpen 0), (2, SendMessage ''Hello''), (3, ResetChat),
                   (4, WsMessage 0 (Data stream_start)),
                   (5, WsMessage 0 (Data (chunk_frame ''Article ''))),
                   (6, FetchResolved)] fresh_session) = []
   \<and> reachable (run [(0, TimerFired 0), (1, WsOpen 0), (2, SendMessage ''Hello''),
                   (3, WsMessage 0 (Data stream_start)),
                   (4, WsMessage 0 (Data (chunk_frame ''Article ''))),
                   (5, WsMessage 0 (Data (error_frame ''rate limited'')))] fresh_session)
   \<and> messages (run [(0, TimerFired 0), (1, WsOpen 0), (2, SendMessage ''Hello''),
                   (3, WsMessage 0 (Data stream_start)),
                   (4, WsMessage 0 (Data (chunk_frame ''Article ''))),
                   (5, WsMessage 0 (Data (error_frame ''rate limited'')))] fresh_session)
       = [\<lparr>msg_id = ''k'', role = User, content = ''Hello'', timestamp = 2\<rparr>,
          \<lparr>msg_id = ''kk'', role = Assistant, content = ''Article '', timestamp = 4\<rparr>,
          \<lparr>msg_id = ''kkk'', role = Assistant,
           content = ''I apologize, but I encountered an error: rate limited'', timestamp = 5\<rparr>]"
proof -
  define tr where "tr = [(0::nat, TimerFired 0), (1, WsOpen 0), (2, SendMessage ''Hello''),
                   (3, WsMessage 0 (Data stream_start)),
                   (4, WsMessage 0 (Data (chunk_frame ''Article ''))),
                   (5, SendMessage ''More'')]"
  define tr2 where "tr2 = [(0::nat, TimerFired 0), (1, WsOpen 0), (2, SendMessage ''Hello''),
                   (3, ResetChat), (4, WsMessage 0 (Data stream_start)),
                   (5, WsMessage 0 (Data (chunk_frame ''Article ''))),
                   (6, FetchResolved)]"
  define tr3 where "tr3 = [(0::nat, TimerFired 0), (1, WsOpen 0), (2, SendMessage ''Hello''),
                   (3, WsMessage 0 (Data stream_start)),
                   (4, WsMessage 0 (Data (chunk_frame ''Article ''))),
                   (5, WsMessage 0 (Data (error_frame ''rate limited'')))]"
  have en: "run_enabled tr fresh_session"
    and st: "isStreaming (run tr fresh_session)"
    and m: "messages (run tr fresh_session)
       = [\<lparr>msg_id = ''k'', role = User, content = ''Hello'', timestamp = 2\<rparr>,
          \<lparr>msg_id = ''kk'', role = Assistant, content = ''Article '', timestamp = 4\<rparr>,
          \<lparr>msg_id = ''kkk'', role = User, content = ''More'', timestamp = 5\<rparr>]"
    and m2: "messages (run (tr @ [(6, WsMessage 0 (Data (chunk_frame ''75.'')))]) fresh_session)
       = [\<lparr>msg_id = ''k'', role = User, content = ''Hello'', timestamp = 2\<rparr>,
          \<lparr>msg_id = ''kk'', role = Assistant, content = ''Article '', timestamp = 4\<rparr>,
          \<lparr>msg_id = ''kkk'', role = User, content = ''More'', timestamp = 5\<rparr>,
          \<lparr>msg_id = ''kkkk'', role = Assistant, content = ''75.'', timestamp = 6\<rparr>]"
    by (simp_all add: tr_def sample_defs frame_defs handler_defs Let_def)
  have en2: "run_enabled tr2 fresh_session"
    and st2: "isStreaming (run tr2 fresh_session)"
    and e2: "messages (run tr2 fresh_session) = []"
    by (simp_all add: tr2_def sample_defs frame_defs handler_defs Let_def)
  have en3: "run_enabled tr3 fresh_session"
    and m3: "messages (run tr3 fresh_session)
       = [\<lparr>msg_id = ''k'', role = User, content = ''Hello'', timestamp = 2\<rparr>,
          \<lparr>msg_id = ''kk'', role = Assistant, content = ''Article '', timestamp = 4\<rparr>,
          \<lparr>msg_id = ''kkk'', role = Assistant,
           content = ''I apologize, but I encountered an error: rate limited'', timestamp = 5\<rparr>]"
    by (simp_all add: tr3_def sample_defs frame_defs handler_defs Let_def)
  have r: "reachable (run tr fresh_session)"
    using reachable_fresh_session en by (rule run_reachable)
  have r2: "reachable (run tr2 fresh_session)"
    using reachable_fresh_session en2 by (rule run_reachable)
  have r3: "reachable (run tr3 fresh_session)"
    using reachable_fresh_session en3 by (rule run_reachable)
  from r st m m2 r2 st2 e2 r3 m3
  have "reachable (run tr fresh_session) \<and> isStreaming (run tr fresh_session)
    \<and> messages (run tr fresh_session)
       = [\<lparr>msg_id = ''k'', role = User, content = ''Hello'', timestamp = 2\<rparr>,
          \<lparr>msg_id = ''kk'', role = Assistant, content = ''Article '', timestamp = 4\<rparr>,
          \<lparr>msg_id = ''kkk'', role = User, content = ''More'', timestamp = 5\<rparr>]
    \<and> messages (run (tr @ [(6, WsMessage 0 (Data (chunk_frame ''75.'')))]) fresh_session)
       = [\<lparr>msg_id = ''k'', role = User, content = ''Hello'', timestamp = 2\<rparr>,
          \<lparr>msg_id = ''kk'', role = Assistant, content = ''Article '', timestamp = 4\<rparr>,
          \<lparr>msg_id = ''kkk'', role = User, content = ''More'', timestamp = 5\<rparr>,
          \<lparr>msg_id = ''kkkk'', role = Assistant, content = ''75.'', timestamp = 6\<rparr>]
    \<and> reachable (run tr2 fresh_session) \<and> isStreaming (run tr2 fresh_session)
    \<and> messages (run tr2 fresh_session) = []
    \<and> reachable (run tr3 fresh_session)
    \<and> messages (run tr3 fresh_session)
       = [\<lparr>msg_id = ''k'', role = User, content = ''Hello'', timestamp = 2\<rparr>,
          \<lparr>msg_id = ''kk'', role = Assistant, content = ''Article '', timestamp = 4\<rparr>,
          \<lparr>msg_id = ''kkk'', role = Assistant,
           content = ''I apologize, but I encountered an error: rate limited'', timestamp = 5\<rparr>]"
    by blast
  then show ?thesis unfolding tr_def tr2_def tr3_def by simp
qed

section \<open>Reconnection with backoff\<close>

lemma close_schedules:
  "timers (step now (WsClose i) s)
     = (if reconnectAttempts s < 5
        then timers s @ [\<lparr>handle = nextHandle s,
                          delay = min (1000 * 2 ^ reconnectAttempts s) 30000,
                          callback = RetryConnect\<rparr>]
        else timers s)
   \<and> reconnectAttempts (step now (WsClose i) s) = reconnectAttempts s
   \<and> connectionStatus (step now (WsClose i) s) = Disconnected"
  by (simp add: onclose_def console_log_def setTimeout_def reconnect_delay_def
        maxReconnectAttempts_def Let_def)

lemma retry_increments:
  "reconnectAttempts (run_callback RetryConnect s) = Suc (reconnectAttempts s)"
  by (simp add: run_callback_def connect_untouched)

lemma reconnect_resets: "reconnectAttempts (step now Reconnect s) = 0"
  by (simp add: reconnect_def connect_untouched)

lemma reconnect_keeps_timers: "timers (step now Reconnect s) = timers s"
  by (simp add: reconnect_def connect_def console_log_def Let_def split: option.splits)

text \<open>
  In a session without a manual reconnect, whose connection opens, drops, and fails on each
  of its five retries, the delays are 1000, 2000, 4000, 8000 and 16000 ms, and after the
  fifth failure no timer is pending.
\<close>

lemma five_failures_run:
  "run_enabled five_failures (mounted True ids p)
   \<and> logged_delays (console (run five_failures (mounted True ids p)))
       = [1000, 2000, 4000, 8000, 16000]
   \<and> reconnectAttempts (run five_failures (mounted True ids p)) = 5
   \<and> connectionStatus (run five_failures (mounted True ids p)) = Disconnected
   \<and> timers (run five_failures (mounted True ids p)) = []"
  by (simp add: five_failures_def mounted_def handler_defs Let_def)

text \<open>
  Claim C2, where the code departs from it. The first connection attempt fails and its
  close event schedules a retry in 1000 ms. Before the timer fires the page calls
  \<^verbatim>\<open>reconnect()\<close>, which resets the counter but leaves the timer pending, and the new socket
  opens: the connection is freshly opened, the status is \<^verbatim>\<open>connected\<close> and the counter is 0.
  Then the pending timer fires, closes the open socket and makes the first automatic
  attempt; every attempt from there on fails. The delays announced after the fresh open are
  2000, 2000, 4000, 8000 and 16000 ms, not 1000, 2000, 4000, 8000 and 16000; six automatic
  attempts are made, on sockets 2 to 7, eight sockets in all; and the counter ends at 6,
  above \<open>maxReconnectAttempts\<close>.
\<close>

theorem stale_retry_timer_sixth_attempt:
  "run_enabled (reconnect_during_backoff @ stale_retries) fresh_session
   \<and> connectionStatus (run reconnect_during_backoff fresh_session) = Connected
   \<and> channel_open (run reconnect_during_backoff fresh_session)
   \<and> reconnectAttempts (run reconnect_during_backoff fresh_session) = 0
   \<and> logged_delays (console (run reconnect_during_backoff fresh_session)) = [1000]
   \<and> logged_delays (console (run (reconnect_during_backoff @ stale_retries) fresh_session))
       = [1000, 2000, 2000, 4000, 8000, 16000]
   \<and> reconnectAttempts (run (reconnect_during_backoff @ stale_retries) fresh_session) = 6
   \<and> length (sockets (run (reconnect_during_backoff @ stale_retries) fresh_session)) = 8
   \<and> timers (run (reconnect_during_backoff @ stale_retries) fresh_session) = []"
  by (simp add: reconnect_during_backoff_def stale_retries_def sample_defs handler_defs Let_def)

end
